theory Spec2Isabelle
  imports Complex_Main "HOL-Library.Dlist"
begin

section \<open>Data model\<close>

text \<open>
  The relay hub of \<^verbatim>\<open>src/muma.py\<close> and its revision \<^verbatim>\<open>src/muma2.0.py\<close>
  (class \<^verbatim>\<open>RemoteDesktopServer\<close>). A websocket is identified by a number. A Python
  \<^verbatim>\<open>set\<close> of websockets is a duplicate-free list (\<open>conn dlist\<close>): membership, \<^verbatim>\<open>add\<close>,
  \<^verbatim>\<open>discard\<close> and \<^verbatim>\<open>len\<close> are those of a set, and the list order is the order in
  which \<^verbatim>\<open>for x in s\<close> and \<^verbatim>\<open>list(s)\<close> visit the elements.
\<close>

type_synonym conn = nat

text \<open>Values produced by \<^verbatim>\<open>json.loads\<close>; \<open>JNull\<close> is Python's \<^verbatim>\<open>None\<close>, a \<open>JObj\<close>
  holds the items of a \<^verbatim>\<open>dict\<close>. Strings are byte lists, the UTF-8 encoding of their
  code points.\<close>

datatype jval =
    JNull
  | JBool bool
  | JInt int
  | JFloat real
  | JStr string
  | JArr "jval list"
  | JObj "(string \<times> jval) list"

type_synonym pydict = "(string \<times> jval) list"

text \<open>\<^verbatim>\<open>d.get(k, default)\<close>.\<close>

definition dict_get :: "pydict \<Rightarrow> string \<Rightarrow> jval \<Rightarrow> jval" where
  "dict_get d k dflt = (case map_of d k of None \<Rightarrow> dflt | Some v \<Rightarrow> v)"

text \<open>The result of \<^verbatim>\<open>json.loads(message)\<close>: \<open>Undecodable\<close> is \<^verbatim>\<open>JSONDecodeError\<close>.\<close>

datatype inbound = Undecodable | Decoded jval

text \<open>The dict \<^verbatim>\<open>self.screen_info\<close>.\<close>

record screen_dims =
  width :: jval
  height :: jval
  original_width :: jval
  original_height :: jval

text \<open>The dict \<^verbatim>\<open>self.current_screen_data\<close>; its entry \<^verbatim>\<open>'type': 'screenshot'\<close> is the
  constructor \<open>Screenshot\<close> of the outgoing message. The timestamp is the reading of
  \<^verbatim>\<open>time.time()\<close>, handed in by the caller.\<close>

record frame =
  frame_data :: jval
  frame_width :: jval
  frame_height :: jval
  frame_original_width :: jval
  frame_original_height :: jval
  frame_timestamp :: real

text \<open>The attributes of \<^verbatim>\<open>RemoteDesktopServer\<close> in \<^verbatim>\<open>muma.py\<close>.\<close>

record server =
  clients :: "conn dlist"
  screen_providers :: "conn dlist"
  screen_viewers :: "conn dlist"
  control_clients :: "conn dlist"
  running :: bool
  current_screen_data :: "frame option"
  screen_info :: screen_dims

text \<open>\<^verbatim>\<open>muma2.0.py\<close> adds the dict \<^verbatim>\<open>self.stats\<close>.\<close>

record server2 = server +
  messages_received :: int
  messages_sent :: int
  start_time :: real

text \<open>What is written to a websocket (the argument of \<^verbatim>\<open>json.dumps\<close>).\<close>

datatype out_msg =
    Screenshot frame
  | Register_ack jval screen_dims
  | Error_reply string
  | Pong
  | Control pydict

text \<open>The outcome of one \<^verbatim>\<open>websocket.send\<close>: it returns, raises
  \<^verbatim>\<open>ConnectionClosed\<close>, or raises another exception.\<close>

datatype send_result = Sent | Raised_closed | Raised_other

text \<open>The condition of a peer while one handler runs: whether \<^verbatim>\<open>client.state\<close> is
  \<^verbatim>\<open>State.OPEN\<close>, and what a send to it does.\<close>

record peer =
  state_open :: bool
  send_outcome :: send_result

type_synonym transport = "conn \<Rightarrow> peer"

text \<open>The effects of a handler, in order: \<open>Send w m r\<close> is one call \<^verbatim>\<open>w.send(m)\<close> with
  outcome \<open>r\<close>; \<open>Unregister w\<close> marks one call \<^verbatim>\<open>unregister_client(w)\<close> (the source
  prints its disconnect line there). Other console output is not modelled.\<close>

datatype event = Send conn out_msg send_result | Unregister conn

fun delivered_to :: "out_msg \<Rightarrow> event list \<Rightarrow> conn list" where
  "delivered_to m [] = []"
| "delivered_to m (Send w m' r # es) =
     (if m' = m \<and> r = Sent then w # delivered_to m es else delivered_to m es)"
| "delivered_to m (Unregister w # es) = delivered_to m es"

fun attempted_to :: "event list \<Rightarrow> conn list" where
  "attempted_to [] = []"
| "attempted_to (Send w m r # es) = w # attempted_to es"
| "attempted_to (Unregister w # es) = attempted_to es"

fun unregister_calls :: "event list \<Rightarrow> conn list" where
  "unregister_calls [] = []"
| "unregister_calls (Send w m r # es) = unregister_calls es"
| "unregister_calls (Unregister w # es) = w # unregister_calls es"

abbreviation mem :: "conn \<Rightarrow> conn dlist \<Rightarrow> bool" where
  "mem w d \<equiv> w \<in> set (list_of_dlist d)"

section \<open>muma.py\<close>

definition init :: server where
  "init = \<lparr> clients = Dlist.empty, screen_providers = Dlist.empty,
            screen_viewers = Dlist.empty, control_clients = Dlist.empty,
            running = True, current_screen_data = None,
            screen_info = \<lparr> width = JInt 0, height = JInt 0,
                            original_width = JInt 0, original_height = JInt 0 \<rparr> \<rparr>"

text \<open>\<^verbatim>\<open>register_client(websocket, client_type='viewer')\<close>. A failing send of the cached
  frame is swallowed by the bare \<^verbatim>\<open>except\<close>.\<close>

definition register_client :: "transport \<Rightarrow> conn \<Rightarrow> jval \<Rightarrow> server \<Rightarrow> server \<times> event list" where
  "register_client tr w client_type s =
     (let s1 = s\<lparr> clients := Dlist.insert w (clients s) \<rparr>;
          s2 = (if client_type = JStr ''provider''
                  then s1\<lparr> screen_providers := Dlist.insert w (screen_providers s1) \<rparr>
                else if client_type = JStr ''controller''
                  then s1\<lparr> control_clients := Dlist.insert w (control_clients s1) \<rparr>
                else s1\<lparr> screen_viewers := Dlist.insert w (screen_viewers s1) \<rparr>)
      in (s2, if client_type = JStr ''viewer''
              then (case current_screen_data s2 of
                      Some f \<Rightarrow> [Send w (Screenshot f) (send_outcome (tr w))]
                    | None \<Rightarrow> [])
              else []))"

definition unregister_client :: "conn \<Rightarrow> server \<Rightarrow> server \<times> event list" where
  "unregister_client w s =
     (s\<lparr> clients := Dlist.remove w (clients s),
         screen_providers := Dlist.remove w (screen_providers s),
         screen_viewers := Dlist.remove w (screen_viewers s),
         control_clients := Dlist.remove w (control_clients s) \<rparr>,
      [Unregister w])"

text \<open>The loop \<^verbatim>\<open>for viewer in ...: try: await viewer.send(message) except ...:
  disconnected.add(viewer)\<close> shared by \<^verbatim>\<open>handle_screen_data\<close> and
  \<^verbatim>\<open>handle_control_event\<close>; the accumulator is the set \<^verbatim>\<open>disconnected\<close>. This is the
  loop when no other handler changes the set while this one waits in an \<^verbatim>\<open>await\<close> and
  every send returns; \<open>send_loop_live\<close> below is the loop over the live set without
  these two conditions, and the handlers built on it.\<close>

fun send_loop :: "transport \<Rightarrow> out_msg \<Rightarrow> conn list \<Rightarrow> conn dlist \<Rightarrow> conn dlist \<times> event list" where
  "send_loop tr m [] disconnected = (disconnected, [])"
| "send_loop tr m (v # vs) disconnected =
     (let r = send_outcome (tr v);
          disconnected1 = (if r = Sent then disconnected else Dlist.insert v disconnected);
          (disconnected2, evs) = send_loop tr m vs disconnected1
      in (disconnected2, Send v m r # evs))"

text \<open>The loop \<^verbatim>\<open>for client in disconnected: await self.unregister_client(client)\<close>.\<close>

fun unregister_all :: "conn list \<Rightarrow> server \<Rightarrow> server \<times> event list" where
  "unregister_all [] s = (s, [])"
| "unregister_all (c # cs) s =
     (let (s1, e1) = unregister_client c s;
          (s2, e2) = unregister_all cs s1
      in (s2, e1 @ e2))"

text \<open>The frame and the screen information built from a \<^verbatim>\<open>screen_data\<close> message.\<close>

definition frame_of :: "real \<Rightarrow> pydict \<Rightarrow> frame" where
  "frame_of now d =
     \<lparr> frame_data = dict_get d ''data'' JNull,
       frame_width = dict_get d ''width'' (JInt 0),
       frame_height = dict_get d ''height'' (JInt 0),
       frame_original_width = dict_get d ''original_width'' (JInt 0),
       frame_original_height = dict_get d ''original_height'' (JInt 0),
       frame_timestamp = now \<rparr>"

definition dims_of :: "pydict \<Rightarrow> screen_dims" where
  "dims_of d =
     \<lparr> width = dict_get d ''width'' (JInt 0),
       height = dict_get d ''height'' (JInt 0),
       original_width = dict_get d ''original_width'' (JInt 0),
       original_height = dict_get d ''original_height'' (JInt 0) \<rparr>"

definition handle_screen_data :: "transport \<Rightarrow> real \<Rightarrow> pydict \<Rightarrow> server \<Rightarrow> server \<times> event list" where
  "handle_screen_data tr now d s =
     (let s1 = s\<lparr> current_screen_data := Some (frame_of now d), screen_info := dims_of d \<rparr>
      in if Dlist.null (screen_viewers s1) then (s1, [])
         else
           (let message = Screenshot (frame_of now d);
                (disconnected, evs) =
                   send_loop tr message (list_of_dlist (screen_viewers s1)) Dlist.empty;
                (s2, evs2) = unregister_all (list_of_dlist disconnected) s1
            in (s2, evs @ evs2)))"

definition handle_control_event :: "transport \<Rightarrow> conn \<Rightarrow> pydict \<Rightarrow> server \<Rightarrow> server \<times> event list" where
  "handle_control_event tr w d s =
     (if Dlist.null (screen_providers s) then (s, [])
      else
        (let message = Control d;
             (disconnected, evs) =
                send_loop tr message (list_of_dlist (screen_providers s)) Dlist.empty;
             (s2, evs2) = unregister_all (list_of_dlist disconnected) s
         in (s2, evs @ evs2)))"

text \<open>The text of the \<^verbatim>\<open>error\<close> reply to \<^verbatim>\<open>get_screenshot\<close>, as UTF-8 bytes.\<close>

definition no_screen_data_message :: string where
  "no_screen_data_message = map char_of
     [229, 189, 147, 229, 137, 141, 230, 178, 161, 230, 156, 137, 229, 143, 175, 231, 148,
      168, 231, 154, 132, 229, 177, 143, 229, 185, 149, 230, 149, 176, 230, 141, 174 :: nat]"

text \<open>\<^verbatim>\<open>handle_client_message\<close>. \<^verbatim>\<open>data.get\<close> on a decoded value that is not a dict
  raises \<^verbatim>\<open>AttributeError\<close>; that, a \<^verbatim>\<open>JSONDecodeError\<close> and a failing reply are caught
  and printed, and the handler returns.\<close>

definition handle_client_message :: "transport \<Rightarrow> real \<Rightarrow> conn \<Rightarrow> inbound \<Rightarrow> server \<Rightarrow> server \<times> event list" where
  "handle_client_message tr now w message s =
     (case message of
        Undecodable \<Rightarrow> (s, [])
      | Decoded (JObj d) \<Rightarrow>
          (let msg_type = dict_get d ''type'' JNull
           in if msg_type = JStr ''register'' then
                (let client_type = dict_get d ''client_type'' (JStr ''viewer'');
                     (s1, evs) = register_client tr w client_type s
                 in (s1, evs @ [Send w (Register_ack client_type (screen_info s1))
                                   (send_outcome (tr w))]))
              else if msg_type = JStr ''screen_data'' then handle_screen_data tr now d s
              else if msg_type = JStr ''mouse'' \<or> msg_type = JStr ''keyboard''
                then handle_control_event tr w d s
              else if msg_type = JStr ''get_screenshot'' then
                (case current_screen_data s of
                   Some f \<Rightarrow> (s, [Send w (Screenshot f) (send_outcome (tr w))])
                 | None \<Rightarrow> (s, [Send w (Error_reply no_screen_data_message)
                                    (send_outcome (tr w))]))
              else if msg_type = JStr ''ping'' then (s, [Send w Pong (send_outcome (tr w))])
              else (s, []))
      | Decoded _ \<Rightarrow> (s, []))"

text \<open>\<^verbatim>\<open>handle_client\<close> for a connection that delivers the given messages and then
  closes: registration with the default \<^verbatim>\<open>client_type\<close>, the read loop, and the
  \<^verbatim>\<open>finally\<close> clause.\<close>

fun read_loop :: "transport \<Rightarrow> conn \<Rightarrow> (real \<times> inbound) list \<Rightarrow> server \<Rightarrow> server \<times> event list" where
  "read_loop tr w [] s = (s, [])"
| "read_loop tr w ((now, message) # ms) s =
     (let (s1, e1) = handle_client_message tr now w message s;
          (s2, e2) = read_loop tr w ms s1
      in (s2, e1 @ e2))"

definition handle_client :: "transport \<Rightarrow> conn \<Rightarrow> (real \<times> inbound) list \<Rightarrow> server \<Rightarrow> server \<times> event list" where
  "handle_client tr w ms s =
     (let (s1, e1) = register_client tr w (JStr ''viewer'') s;
          (s2, e2) = read_loop tr w ms s1;
          (s3, e3) = unregister_client w s2
      in (s3, e1 @ e2 @ e3))"

record status =
  total_clients :: nat
  providers_count :: nat
  viewers_count :: nat
  controllers_count :: nat
  has_screen_data :: bool
  status_screen_info :: screen_dims

definition get_server_status :: "server \<Rightarrow> status" where
  "get_server_status s =
     \<lparr> total_clients = Dlist.length (clients s),
       providers_count = Dlist.length (screen_providers s),
       viewers_count = Dlist.length (screen_viewers s),
       controllers_count = Dlist.length (control_clients s),
       has_screen_data = (current_screen_data s \<noteq> None),
       status_screen_info = screen_info s \<rparr>"

section \<open>muma2.0.py\<close>

definition init2 :: "real \<Rightarrow> server2" where
  "init2 now = \<lparr> clients = Dlist.empty, screen_providers = Dlist.empty,
            screen_viewers = Dlist.empty, control_clients = Dlist.empty,
            running = True, current_screen_data = None,
            screen_info = \<lparr> width = JInt 0, height = JInt 0,
                            original_width = JInt 0, original_height = JInt 0 \<rparr>,
            messages_received = 0, messages_sent = 0, start_time = now \<rparr>"

text \<open>\<^verbatim>\<open>register_client\<close> of the revision: a delivered cached frame is counted in
  \<^verbatim>\<open>stats['messages_sent']\<close>, a failing send is caught and printed.\<close>

definition register_client2 :: "transport \<Rightarrow> conn \<Rightarrow> jval \<Rightarrow> server2 \<Rightarrow> server2 \<times> event list" where
  "register_client2 tr w client_type s =
     (let s1 = s\<lparr> clients := Dlist.insert w (clients s) \<rparr>;
          s2 = (if client_type = JStr ''provider''
                  then s1\<lparr> screen_providers := Dlist.insert w (screen_providers s1) \<rparr>
                else if client_type = JStr ''controller''
                  then s1\<lparr> control_clients := Dlist.insert w (control_clients s1) \<rparr>
                else s1\<lparr> screen_viewers := Dlist.insert w (screen_viewers s1) \<rparr>)
      in if client_type = JStr ''viewer''
         then (case current_screen_data s2 of
                 Some f \<Rightarrow>
                   (if send_outcome (tr w) = Sent
                      then s2\<lparr> messages_sent := messages_sent s2 + 1 \<rparr> else s2,
                    [Send w (Screenshot f) (send_outcome (tr w))])
               | None \<Rightarrow> (s2, []))
         else (s2, []))"

text \<open>\<^verbatim>\<open>unregister_client\<close> of the revision; \<^verbatim>\<open>was_provider\<close>, \<^verbatim>\<open>was_viewer\<close> and
  \<^verbatim>\<open>was_controller\<close> only choose the printed label.\<close>

definition unregister_client2 :: "conn \<Rightarrow> server2 \<Rightarrow> server2 \<times> event list" where
  "unregister_client2 w s =
     (let s1 = s\<lparr> clients := Dlist.remove w (clients s) \<rparr>
      in (s1\<lparr> screen_providers := Dlist.remove w (screen_providers s1),
              screen_viewers := Dlist.remove w (screen_viewers s1),
              control_clients := Dlist.remove w (control_clients s1) \<rparr>,
          [Unregister w]))"

fun unregister_all2 :: "conn list \<Rightarrow> server2 \<Rightarrow> server2 \<times> event list" where
  "unregister_all2 [] s = (s, [])"
| "unregister_all2 (c # cs) s =
     (let (s1, e1) = unregister_client2 c s;
          (s2, e2) = unregister_all2 cs s1
      in (s2, e1 @ e2))"

text \<open>\<^verbatim>\<open>_send_to_client\<close>: the result \<open>Sent\<close> is the return value \<^verbatim>\<open>True\<close>, the other
  two are the exception raised; a client whose state is not \<^verbatim>\<open>OPEN\<close> is not written
  to.\<close>

definition send_to_client :: "transport \<Rightarrow> conn \<Rightarrow> out_msg \<Rightarrow> send_result \<times> event list" where
  "send_to_client tr client m =
     (if state_open (tr client)
        then (send_outcome (tr client), [Send client m (send_outcome (tr client))])
      else (Raised_closed, []))"

text \<open>\<^verbatim>\<open>results = await asyncio.gather(*send_tasks, return_exceptions=True)\<close> over the
  tasks built from \<^verbatim>\<open>list(targets)\<close>: one result per target, in the order of the
  targets, when every task ends; \<open>gather_tasks\<close> below has the tasks that do not.\<close>

fun gather_sends :: "transport \<Rightarrow> out_msg \<Rightarrow> conn list \<Rightarrow> send_result list \<times> event list" where
  "gather_sends tr m [] = ([], [])"
| "gather_sends tr m (v # vs) =
     (let (r, e1) = send_to_client tr v m;
          (rs, e2) = gather_sends tr m vs
      in (r # rs, e1 @ e2))"

text \<open>The loop over \<^verbatim>\<open>zip(list(targets), results)\<close>; the accumulators are the set
  \<^verbatim>\<open>disconnected\<close> and \<^verbatim>\<open>stats['messages_sent']\<close>.\<close>

fun collect_results :: "(conn \<times> send_result) list \<Rightarrow> conn dlist \<Rightarrow> int \<Rightarrow> conn dlist \<times> int" where
  "collect_results [] disconnected n = (disconnected, n)"
| "collect_results ((v, r) # rest) disconnected n =
     (if r \<noteq> Sent then collect_results rest (Dlist.insert v disconnected) n
      else collect_results rest disconnected (n + 1))"

text \<open>\<^verbatim>\<open>_broadcast_to_viewers\<close> and \<^verbatim>\<open>_broadcast_to_providers\<close> when no other handler
  changes the registry during the await of the gather, so that the set read again after
  the await is the set read before it, and every task ends;
  \<open>broadcast_to_viewers_interleaved\<close> and \<open>broadcast_to_providers_interleaved\<close> below are
  the two functions without these conditions.\<close>

definition broadcast_to_viewers :: "transport \<Rightarrow> out_msg \<Rightarrow> server2 \<Rightarrow> server2 \<times> event list" where
  "broadcast_to_viewers tr message s =
     (if Dlist.null (screen_viewers s) then (s, [])
      else
        (let (results, evs) = gather_sends tr message (list_of_dlist (screen_viewers s));
             (disconnected, n) =
                collect_results (zip (list_of_dlist (screen_viewers s)) results)
                   Dlist.empty (messages_sent s);
             s1 = s\<lparr> messages_sent := n \<rparr>;
             (s2, evs2) = unregister_all2 (list_of_dlist disconnected) s1
         in (s2, evs @ evs2)))"

definition broadcast_to_providers :: "transport \<Rightarrow> out_msg \<Rightarrow> server2 \<Rightarrow> server2 \<times> event list" where
  "broadcast_to_providers tr message s =
     (if Dlist.null (screen_providers s) then (s, [])
      else
        (let (results, evs) = gather_sends tr message (list_of_dlist (screen_providers s));
             (disconnected, n) =
                collect_results (zip (list_of_dlist (screen_providers s)) results)
                   Dlist.empty (messages_sent s);
             s1 = s\<lparr> messages_sent := n \<rparr>;
             (s2, evs2) = unregister_all2 (list_of_dlist disconnected) s1
         in (s2, evs @ evs2)))"

definition handle_screen_data2 :: "transport \<Rightarrow> real \<Rightarrow> pydict \<Rightarrow> server2 \<Rightarrow> server2 \<times> event list" where
  "handle_screen_data2 tr now d s =
     (let s1 = s\<lparr> current_screen_data := Some (frame_of now d), screen_info := dims_of d \<rparr>
      in if Dlist.null (screen_viewers s1) then (s1, [])
         else broadcast_to_viewers tr (Screenshot (frame_of now d)) s1)"

text \<open>Console output is encoded as UTF-8 and refuses a surrogate code point with
  \<^verbatim>\<open>UnicodeEncodeError\<close>. A string decoded from JSON can hold one (the escape
  \<^verbatim>\<open>\ud800\<close> on its own); in the byte list it is the three bytes that start with
  \<open>0xED\<close> followed by a byte of at least \<open>0xA0\<close>, which no other code point gives.\<close>

fun has_surrogate :: "string \<Rightarrow> bool" where
  "has_surrogate (a # b # cs) =
     ((a = CHR 0xED \<and> (0xA0 :: nat) \<le> of_char b) \<or> has_surrogate (b # cs))"
| "has_surrogate cs = False"

text \<open>Whether \<^verbatim>\<open>print(f"... {v} ...")\<close> raises on account of \<^verbatim>\<open>v\<close>: a string is
  printed as it is, any other value through its \<^verbatim>\<open>repr\<close>, which escapes surrogates.\<close>

fun print_raises :: "jval \<Rightarrow> bool" where
  "print_raises (JStr x) = has_surrogate x"
| "print_raises v = False"

text \<open>Whether \<^verbatim>\<open>print(f"... {'+'.join(keys)}")\<close> raises: \<^verbatim>\<open>join\<close> raises \<^verbatim>\<open>TypeError\<close>
  unless \<^verbatim>\<open>keys\<close> is an iterable of strings (a list of strings, a string, or a dict,
  which yields its keys), and the joined string is then printed.\<close>

fun is_str :: "jval \<Rightarrow> bool" where
  "is_str (JStr x) = True"
| "is_str v = False"

fun join_raises :: "jval \<Rightarrow> bool" where
  "join_raises (JStr x) = has_surrogate x"
| "join_raises (JArr xs) = (\<not> list_all is_str xs \<or> list_ex print_raises xs)"
| "join_raises (JObj kvs) = list_ex has_surrogate (map fst kvs)"
| "join_raises v = True"

text \<open>Whether building and printing the debug line of \<^verbatim>\<open>handle_control_event\<close>
  raises, by the branch taken.\<close>

definition log_raises :: "pydict \<Rightarrow> bool" where
  "log_raises d =
     (if dict_get d ''type'' JNull = JStr ''keyboard'' then
        (if dict_get d ''event_type'' JNull = JStr ''type''
           then print_raises (dict_get d ''text'' (JStr []))
         else if dict_get d ''event_type'' JNull = JStr ''hotkey''
           then join_raises (dict_get d ''keys'' (JArr []))
         else print_raises (dict_get d ''key'' (JStr [])))
      else if dict_get d ''type'' JNull = JStr ''mouse'' then
        (print_raises (dict_get d ''event_type'' JNull) \<or>
         print_raises (dict_get d ''x'' (JInt 0)) \<or>
         print_raises (dict_get d ''y'' (JInt 0)))
      else False)"

text \<open>\<^verbatim>\<open>handle_control_event\<close> of the revision: an exception raised while the debug
  line is built is caught by the handler's \<^verbatim>\<open>except Exception\<close>, after which it
  returns.\<close>

definition handle_control_event2 :: "transport \<Rightarrow> conn \<Rightarrow> pydict \<Rightarrow> server2 \<Rightarrow> server2 \<times> event list" where
  "handle_control_event2 tr w d s =
     (if Dlist.null (screen_providers s) then (s, [])
      else if log_raises d then (s, [])
      else broadcast_to_providers tr (Control d) s)"

text \<open>A reply to the sender, counted in \<^verbatim>\<open>stats['messages_sent']\<close> when the send
  returns.\<close>

definition reply2 :: "transport \<Rightarrow> conn \<Rightarrow> out_msg \<Rightarrow> server2 \<Rightarrow> server2 \<times> event list" where
  "reply2 tr w m s =
     (if send_outcome (tr w) = Sent then s\<lparr> messages_sent := messages_sent s + 1 \<rparr> else s,
      [Send w m (send_outcome (tr w))])"

definition handle_client_message2 :: "transport \<Rightarrow> real \<Rightarrow> conn \<Rightarrow> inbound \<Rightarrow> server2 \<Rightarrow> server2 \<times> event list" where
  "handle_client_message2 tr now w message s =
     (case message of
        Undecodable \<Rightarrow> (s, [])
      | Decoded (JObj d) \<Rightarrow>
          (let msg_type = dict_get d ''type'' JNull;
               s0 = s\<lparr> messages_received := messages_received s + 1 \<rparr>
           in if msg_type = JStr ''register'' then
                (let client_type = dict_get d ''client_type'' (JStr ''viewer'');
                     (s1, evs) = register_client2 tr w client_type s0;
                     (s2, evs2) = reply2 tr w (Register_ack client_type (screen_info s1)) s1
                 in (s2, evs @ evs2))
              else if msg_type = JStr ''screen_data'' then handle_screen_data2 tr now d s0
              else if msg_type = JStr ''mouse'' \<or> msg_type = JStr ''keyboard''
                then handle_control_event2 tr w d s0
              else if msg_type = JStr ''get_screenshot'' then
                (case current_screen_data s0 of
                   Some f \<Rightarrow> reply2 tr w (Screenshot f) s0
                 | None \<Rightarrow> reply2 tr w (Error_reply no_screen_data_message) s0)
              else if msg_type = JStr ''ping'' then reply2 tr w Pong s0
              else (s0, []))
      | Decoded _ \<Rightarrow> (s, []))"

text \<open>\<^verbatim>\<open>handle_client\<close> of the revision; the peer address it formats for the console
  before registering is not modelled.\<close>

fun read_loop2 :: "transport \<Rightarrow> conn \<Rightarrow> (real \<times> inbound) list \<Rightarrow> server2 \<Rightarrow> server2 \<times> event list" where
  "read_loop2 tr w [] s = (s, [])"
| "read_loop2 tr w ((now, message) # ms) s =
     (let (s1, e1) = handle_client_message2 tr now w message s;
          (s2, e2) = read_loop2 tr w ms s1
      in (s2, e1 @ e2))"

definition handle_client2 :: "transport \<Rightarrow> conn \<Rightarrow> (real \<times> inbound) list \<Rightarrow> server2 \<Rightarrow> server2 \<times> event list" where
  "handle_client2 tr w ms s =
     (let (s1, e1) = register_client2 tr w (JStr ''viewer'') s;
          (s2, e2) = read_loop2 tr w ms s1;
          (s3, e3) = unregister_client2 w s2
      in (s3, e1 @ e2 @ e3))"

text \<open>\<^verbatim>\<open>get_server_status\<close> of the revision, with the two message counters of its
  \<^verbatim>\<open>stats\<close> entry; the run time and the rate derived from the clock are left out.\<close>

record status2 = status +
  status_messages_received :: int
  status_messages_sent :: int

definition get_server_status2 :: "server2 \<Rightarrow> status2" where
  "get_server_status2 s =
     \<lparr> total_clients = Dlist.length (clients s),
       providers_count = Dlist.length (screen_providers s),
       viewers_count = Dlist.length (screen_viewers s),
       controllers_count = Dlist.length (control_clients s),
       has_screen_data = (current_screen_data s \<noteq> None),
       status_screen_info = screen_info s,
       status_messages_received = messages_received s,
       status_messages_sent = messages_sent s \<rparr>"

section \<open>Sequences of operations\<close>

text \<open>The operations that change a registry, each with the condition of the peers
  and the clock reading it runs under. A sequence of them is any interleaving of the
  connection handlers at the granularity of whole operations.\<close>

datatype op =
    Op_register transport conn jval
  | Op_unregister conn
  | Op_message transport real conn inbound

fun step :: "op \<Rightarrow> server \<Rightarrow> server" where
  "step (Op_register tr w client_type) s = fst (register_client tr w client_type s)"
| "step (Op_unregister w) s = fst (unregister_client w s)"
| "step (Op_message tr now w message) s = fst (handle_client_message tr now w message s)"

fun step2 :: "op \<Rightarrow> server2 \<Rightarrow> server2" where
  "step2 (Op_register tr w client_type) s = fst (register_client2 tr w client_type s)"
| "step2 (Op_unregister w) s = fst (unregister_client2 w s)"
| "step2 (Op_message tr now w message) s = fst (handle_client_message2 tr now w message s)"

fun exec :: "op list \<Rightarrow> server \<Rightarrow> server" where
  "exec [] s = s"
| "exec (x # xs) s = exec xs (step x s)"

fun exec2 :: "op list \<Rightarrow> server2 \<Rightarrow> server2" where
  "exec2 [] s = s"
| "exec2 (x # xs) s = exec2 xs (step2 x s)"

text \<open>A peer that is open and accepts every send, and one whose connection is closed.\<close>

definition open_peer :: peer where
  "open_peer = \<lparr> state_open = True, send_outcome = Sent \<rparr>"

definition closed_peer :: peer where
  "closed_peer = \<lparr> state_open = False, send_outcome = Raised_closed \<rparr>"

definition all_open :: transport where
  "all_open c = open_peer"

definition one_closed :: "conn \<Rightarrow> transport" where
  "one_closed x c = (if c = x then closed_peer else open_peer)"

section \<open>Notions used in the statements\<close>

text \<open>A send to \<open>v\<close> fails: in \<^verbatim>\<open>muma.py\<close> when \<^verbatim>\<open>v.send\<close> raises, in
  \<^verbatim>\<open>muma2.0.py\<close> when \<^verbatim>\<open>_send_to_client\<close> raises.\<close>

definition send_fails :: "transport \<Rightarrow> conn \<Rightarrow> bool" where
  "send_fails tr v = (send_outcome (tr v) \<noteq> Sent)"

definition send_fails2 :: "transport \<Rightarrow> conn \<Rightarrow> bool" where
  "send_fails2 tr v = (\<not> state_open (tr v) \<or> send_outcome (tr v) \<noteq> Sent)"

text \<open>The registry without the connections that satisfy \<open>P\<close>.\<close>

definition prune :: "(conn \<Rightarrow> bool) \<Rightarrow> 'a server_scheme \<Rightarrow> 'a server_scheme" where
  "prune P s =
     s\<lparr> clients := Dlist.filter (\<lambda>c. \<not> P c) (clients s),
        screen_providers := Dlist.filter (\<lambda>c. \<not> P c) (screen_providers s),
        screen_viewers := Dlist.filter (\<lambda>c. \<not> P c) (screen_viewers s),
        control_clients := Dlist.filter (\<lambda>c. \<not> P c) (control_clients s) \<rparr>"

text \<open>In how many of the three role sets a connection is.\<close>

definition role_count :: "'a server_scheme \<Rightarrow> conn \<Rightarrow> nat" where
  "role_count s w =
     (if mem w (screen_providers s) then 1 else 0) +
     (if mem w (screen_viewers s) then 1 else 0) +
     (if mem w (control_clients s) then 1 else 0)"

text \<open>Every member of a role set is in the set of all connections.\<close>

definition roles_within_clients :: "'a server_scheme \<Rightarrow> bool" where
  "roles_within_clients s =
     (set (list_of_dlist (screen_providers s)) \<union> set (list_of_dlist (screen_viewers s))
        \<union> set (list_of_dlist (control_clients s)) \<subseteq> set (list_of_dlist (clients s)))"

text \<open>The three role sets are pairwise disjoint.\<close>

definition roles_disjoint :: "'a server_scheme \<Rightarrow> bool" where
  "roles_disjoint s =
     (set (list_of_dlist (screen_providers s)) \<inter> set (list_of_dlist (screen_viewers s)) = {} \<and>
      set (list_of_dlist (screen_providers s)) \<inter> set (list_of_dlist (control_clients s)) = {} \<and>
      set (list_of_dlist (screen_viewers s)) \<inter> set (list_of_dlist (control_clients s)) = {})"

text \<open>Example messages.\<close>

definition register_msg :: "string \<Rightarrow> inbound" where
  "register_msg client_type =
     Decoded (JObj [(''type'', JStr ''register''), (''client_type'', JStr client_type)])"

definition screen_data_dict :: "int \<Rightarrow> int \<Rightarrow> pydict" where
  "screen_data_dict w h =
     [(''type'', JStr ''screen_data''), (''data'', JStr ''image''),
      (''width'', JInt w), (''height'', JInt h)]"

definition mouse_dict :: pydict where
  "mouse_dict =
     [(''type'', JStr ''mouse''), (''event_type'', JStr ''click''), (''x'', JInt 3), (''y'', JInt 4)]"

definition hotkey_dict :: pydict where
  "hotkey_dict =
     [(''type'', JStr ''keyboard''), (''event_type'', JStr ''hotkey''),
      (''keys'', JArr [JInt 17, JInt 67])]"

definition get_screenshot_msg :: inbound where
  "get_screenshot_msg = Decoded (JObj [(''type'', JStr ''get_screenshot'')])"

text \<open>Three connections registered as viewer, provider and controller.\<close>

definition three_roles :: server where
  "three_roles =
     fst (register_client all_open 3 (JStr ''controller'')
       (fst (register_client all_open 2 (JStr ''provider'')
         (fst (register_client all_open 1 (JStr ''viewer'') init)))))"

definition three_roles2 :: server2 where
  "three_roles2 =
     fst (register_client2 all_open 3 (JStr ''controller'')
       (fst (register_client2 all_open 2 (JStr ''provider'')
         (fst (register_client2 all_open 1 (JStr ''viewer'') (init2 0))))))"

text \<open>Three connections registered as viewers.\<close>

definition three_viewers :: server where
  "three_viewers =
     fst (register_client all_open 3 (JStr ''viewer'')
       (fst (register_client all_open 2 (JStr ''viewer'')
         (fst (register_client all_open 1 (JStr ''viewer'') init)))))"

definition three_viewers2 :: server2 where
  "three_viewers2 =
     fst (register_client2 all_open 3 (JStr ''viewer'')
       (fst (register_client2 all_open 2 (JStr ''viewer'')
         (fst (register_client2 all_open 1 (JStr ''viewer'') (init2 0))))))"

text \<open>An operation that is a decoded \<^verbatim>\<open>screen_data\<close> message.\<close>

fun is_screen_data :: "op \<Rightarrow> bool" where
  "is_screen_data (Op_message tr now w (Decoded (JObj d))) =
     (dict_get d ''type'' JNull = JStr ''screen_data'')"
| "is_screen_data x = False"

text \<open>The registry of three roles after one frame was submitted.\<close>

definition with_frame :: server where
  "with_frame = fst (handle_screen_data all_open 0 (screen_data_dict 800 600) three_roles)"

definition with_frame2 :: server2 where
  "with_frame2 = fst (handle_screen_data2 all_open 0 (screen_data_dict 800 600) three_roles2)"

section \<open>Handlers whose awaits let other handlers run, or never return\<close>

text \<open>
  The broadcasts again, as the source has them, with the two things an \<^verbatim>\<open>await\<close> adds
  to the definitions above: while a handler waits, other handlers run and change the
  registry (\<open>meanwhile\<close>), and a send to a stalled peer never returns (\<open>stalled\<close>). The
  definitions above are these with nobody else running and no peer stalled, as proved
  below.

  A handler then returns with a registry and its effects, or never returns, having had
  some effects; \<open>Not_determined\<close> is the one case the model leaves open (see
  \<open>send_loop_live\<close>).
\<close>

datatype 's run =
    is_returns: Returns (final: 's) (effects: "event list")
  | Never_returns (effects: "event list")
  | Not_determined

definition undisturbed :: "'s \<Rightarrow> 's" where
  "undisturbed s = s"

definition nobody_else :: "conn \<Rightarrow> 's \<Rightarrow> 's" where
  "nobody_else v s = s"

definition none_stalled :: "conn \<Rightarrow> bool" where
  "none_stalled v = False"

definition only_stalled :: "conn \<Rightarrow> conn \<Rightarrow> bool" where
  "only_stalled x v = (v = x)"

text \<open>How the loop of \<^verbatim>\<open>muma.py\<close> ends.\<close>

datatype loop_end =
    Completed "conn dlist" server "event list"
  | Raised_runtime_error server "event list"
  | Stalled "event list"
  | Order_not_determined

fun with_event :: "event \<Rightarrow> loop_end \<Rightarrow> loop_end" where
  "with_event e (Completed disconnected s evs) = Completed disconnected s (e # evs)"
| "with_event e (Raised_runtime_error s evs) = Raised_runtime_error s (e # evs)"
| "with_event e (Stalled evs) = Stalled (e # evs)"
| "with_event e Order_not_determined = Order_not_determined"

text \<open>
  The loop \<^verbatim>\<open>for viewer in self.screen_viewers: try: await viewer.send(message) ...\<close> of
  \<^verbatim>\<open>muma.py\<close> over the live set \<open>targets\<close> of the registry. The list is what the
  iterator has still to visit. A send to a stalled peer never returns. Otherwise,
  \<open>meanwhile v\<close> is what the other handlers do to the registry during the await of the
  send to \<open>v\<close>; when the loop then asks the iterator for the next element (also after
  the last one) and the set has changed its size, the iterator raises
  \<^verbatim>\<open>RuntimeError\<close>. When the set has kept its size but not its members, the iterator
  goes on over a table that the list does not describe: \<open>Order_not_determined\<close>.
\<close>

fun send_loop_live :: "transport \<Rightarrow> (conn \<Rightarrow> bool) \<Rightarrow> (conn \<Rightarrow> server \<Rightarrow> server) \<Rightarrow> (server \<Rightarrow> conn dlist) \<Rightarrow> out_msg \<Rightarrow> conn list \<Rightarrow> server \<Rightarrow> conn dlist \<Rightarrow> loop_end" where
  "send_loop_live tr stalled meanwhile targets m [] s disconnected = Completed disconnected s []"
| "send_loop_live tr stalled meanwhile targets m (v # vs) s disconnected =
     (if stalled v then Stalled []
      else
        (let r = send_outcome (tr v);
             disconnected1 = (if r = Sent then disconnected else Dlist.insert v disconnected);
             s1 = meanwhile v s
         in if Dlist.length (targets s1) \<noteq> Dlist.length (targets s)
              then Raised_runtime_error s1 [Send v m r]
            else if targets s1 \<noteq> targets s then Order_not_determined
            else with_event (Send v m r)
                   (send_loop_live tr stalled meanwhile targets m vs s1 disconnected1)))"

text \<open>\<^verbatim>\<open>handle_screen_data\<close> of \<^verbatim>\<open>muma.py\<close>: the \<^verbatim>\<open>RuntimeError\<close> leaves the loop and is
  caught by the handler's \<^verbatim>\<open>except Exception\<close>, so the loop over \<^verbatim>\<open>disconnected\<close> is
  not reached. \<^verbatim>\<open>unregister_client\<close> has no \<^verbatim>\<open>await\<close> of its own.\<close>

definition handle_screen_data_interleaved :: "transport \<Rightarrow> (conn \<Rightarrow> bool) \<Rightarrow> (conn \<Rightarrow> server \<Rightarrow> server) \<Rightarrow> real \<Rightarrow> pydict \<Rightarrow> server \<Rightarrow> server run" where
  "handle_screen_data_interleaved tr stalled meanwhile now d s =
     (let s1 = s\<lparr> current_screen_data := Some (frame_of now d), screen_info := dims_of d \<rparr>
      in if Dlist.null (screen_viewers s1) then Returns s1 []
         else
           (case send_loop_live tr stalled meanwhile screen_viewers (Screenshot (frame_of now d))
                   (list_of_dlist (screen_viewers s1)) s1 Dlist.empty of
              Completed disconnected s2 evs \<Rightarrow>
                (let (s3, evs2) = unregister_all (list_of_dlist disconnected) s2
                 in Returns s3 (evs @ evs2))
            | Raised_runtime_error s2 evs \<Rightarrow> Returns s2 evs
            | Stalled evs \<Rightarrow> Never_returns evs
            | Order_not_determined \<Rightarrow> Not_determined))"

definition handle_control_event_interleaved :: "transport \<Rightarrow> (conn \<Rightarrow> bool) \<Rightarrow> (conn \<Rightarrow> server \<Rightarrow> server) \<Rightarrow> conn \<Rightarrow> pydict \<Rightarrow> server \<Rightarrow> server run" where
  "handle_control_event_interleaved tr stalled meanwhile w d s =
     (if Dlist.null (screen_providers s) then Returns s []
      else
        (case send_loop_live tr stalled meanwhile screen_providers (Control d)
                (list_of_dlist (screen_providers s)) s Dlist.empty of
           Completed disconnected s2 evs \<Rightarrow>
             (let (s3, evs2) = unregister_all (list_of_dlist disconnected) s2
              in Returns s3 (evs @ evs2))
         | Raised_runtime_error s2 evs \<Rightarrow> Returns s2 evs
         | Stalled evs \<Rightarrow> Never_returns evs
         | Order_not_determined \<Rightarrow> Not_determined))"

text \<open>\<^verbatim>\<open>_send_to_client\<close> as a task of its own: \<open>None\<close> when the send never returns.\<close>

definition send_to_client_task :: "transport \<Rightarrow> (conn \<Rightarrow> bool) \<Rightarrow> conn \<Rightarrow> out_msg \<Rightarrow> send_result option \<times> event list" where
  "send_to_client_task tr stalled client m =
     (if state_open (tr client)
        then (if stalled client then (None, [])
              else (Some (send_outcome (tr client)),
                    [Send client m (send_outcome (tr client))]))
      else (Some Raised_closed, []))"

text \<open>The tasks handed to \<^verbatim>\<open>asyncio.gather\<close>, one for each target: each runs whatever
  the others do.\<close>

fun gather_tasks :: "transport \<Rightarrow> (conn \<Rightarrow> bool) \<Rightarrow> out_msg \<Rightarrow> conn list \<Rightarrow> send_result option list \<times> event list" where
  "gather_tasks tr stalled m [] = ([], [])"
| "gather_tasks tr stalled m (v # vs) =
     (let (r, e1) = send_to_client_task tr stalled v m;
          (rs, e2) = gather_tasks tr stalled m vs
      in (r # rs, e1 @ e2))"

text \<open>
  \<^verbatim>\<open>_broadcast_to_viewers\<close> of \<^verbatim>\<open>muma2.0.py\<close>. The tasks are built from
  \<^verbatim>\<open>list(self.screen_viewers)\<close> as it is before the await; \<^verbatim>\<open>await asyncio.gather\<close>
  returns the list of results once every task has ended, and never if one does not end;
  \<open>meanwhile\<close> is what the other handlers do to the registry during that await. The
  results are then paired with \<^verbatim>\<open>list(self.screen_viewers)\<close> as it is after the await
  (\<^verbatim>\<open>zip\<close> stops at the shorter list).
\<close>

definition broadcast_to_viewers_interleaved :: "transport \<Rightarrow> (conn \<Rightarrow> bool) \<Rightarrow> (server2 \<Rightarrow> server2) \<Rightarrow> out_msg \<Rightarrow> server2 \<Rightarrow> server2 run" where
  "broadcast_to_viewers_interleaved tr stalled meanwhile message s =
     (if Dlist.null (screen_viewers s) then Returns s []
      else
        (let (tasks, evs) = gather_tasks tr stalled message (list_of_dlist (screen_viewers s))
         in case those tasks of
              None \<Rightarrow> Never_returns evs
            | Some results \<Rightarrow>
                (let s0 = meanwhile s;
                     (disconnected, n) =
                        collect_results (zip (list_of_dlist (screen_viewers s0)) results)
                           Dlist.empty (messages_sent s0);
                     s1 = s0\<lparr> messages_sent := n \<rparr>;
                     (s2, evs2) = unregister_all2 (list_of_dlist disconnected) s1
                 in Returns s2 (evs @ evs2))))"

definition broadcast_to_providers_interleaved :: "transport \<Rightarrow> (conn \<Rightarrow> bool) \<Rightarrow> (server2 \<Rightarrow> server2) \<Rightarrow> out_msg \<Rightarrow> server2 \<Rightarrow> server2 run" where
  "broadcast_to_providers_interleaved tr stalled meanwhile message s =
     (if Dlist.null (screen_providers s) then Returns s []
      else
        (let (tasks, evs) = gather_tasks tr stalled message (list_of_dlist (screen_providers s))
         in case those tasks of
              None \<Rightarrow> Never_returns evs
            | Some results \<Rightarrow>
                (let s0 = meanwhile s;
                     (disconnected, n) =
                        collect_results (zip (list_of_dlist (screen_providers s0)) results)
                           Dlist.empty (messages_sent s0);
                     s1 = s0\<lparr> messages_sent := n \<rparr>;
                     (s2, evs2) = unregister_all2 (list_of_dlist disconnected) s1
                 in Returns s2 (evs @ evs2))))"

text \<open>What other handlers do during an await in the examples: the handler of
  connection \<open>w\<close> ends and unregisters it; a connection \<open>w\<close> is accepted, which
  \<^verbatim>\<open>handle_client\<close> registers as viewer, during the send to \<open>x\<close>; a connection \<open>w\<close>
  registers as provider during the send to \<open>x\<close>.\<close>

definition leaves2 :: "conn \<Rightarrow> server2 \<Rightarrow> server2" where
  "leaves2 w s = fst (unregister_client2 w s)"

definition accepted_during :: "conn \<Rightarrow> conn \<Rightarrow> conn \<Rightarrow> server \<Rightarrow> server" where
  "accepted_during x w v s =
     (if v = x then fst (register_client all_open w (JStr ''viewer'') s) else s)"

definition provider_joins_during :: "conn \<Rightarrow> conn \<Rightarrow> conn \<Rightarrow> server \<Rightarrow> server" where
  "provider_joins_during x w v s =
     (if v = x then fst (register_client all_open w (JStr ''provider'') s) else s)"

text \<open>Three connections registered as providers.\<close>

definition three_providers :: server where
  "three_providers =
     fst (register_client all_open 3 (JStr ''provider'')
       (fst (register_client all_open 2 (JStr ''provider'')
         (fst (register_client all_open 1 (JStr ''provider'') init)))))"

definition three_providers2 :: server2 where
  "three_providers2 =
     fst (register_client2 all_open 3 (JStr ''provider'')
       (fst (register_client2 all_open 2 (JStr ''provider'')
         (fst (register_client2 all_open 1 (JStr ''provider'') (init2 0))))))"

section \<open>Sets of connections and pruning\<close>

lemma dlist_remove_idem: "Dlist.remove w (Dlist.remove w d) = Dlist.remove w d"
  by (simp add: dlist_eq_iff distinct_remove1_removeAll remove1_idem)

lemma dlist_remove_absent: "\<not> mem w d \<Longrightarrow> Dlist.remove w d = d"
  by (simp add: dlist_eq_iff remove1_idem)

lemma dlist_remove_filter: "Dlist.remove w d = Dlist.filter (\<lambda>c. c \<noteq> w) d"
  by (simp add: dlist_eq_iff distinct_remove1_removeAll removeAll_filter_not_eq) metis

lemma dlist_filter_filter: "Dlist.filter P (Dlist.filter Q d) = Dlist.filter (\<lambda>c. Q c \<and> P c) d"
  by (simp add: dlist_eq_iff)

lemma dlist_filter_cong: "(\<And>c. mem c d \<Longrightarrow> P c = Q c) \<Longrightarrow> Dlist.filter P d = Dlist.filter Q d"
  by (simp add: dlist_eq_iff cong: filter_cong)

lemma dlist_filter_id: "(\<And>c. mem c d \<Longrightarrow> P c) \<Longrightarrow> Dlist.filter P d = d"
  by (simp add: dlist_eq_iff)

lemma unregister_client_prune: "fst (unregister_client w s) = prune (\<lambda>c. c = w) s"
  by (simp add: unregister_client_def prune_def dlist_remove_filter)

lemma unregister_client2_prune: "fst (unregister_client2 w s) = prune (\<lambda>c. c = w) s"
  by (simp add: unregister_client2_def prune_def dlist_remove_filter)

lemma prune_prune: "prune P (prune Q s) = prune (\<lambda>c. Q c \<or> P c) s"
  by (simp add: prune_def dlist_filter_filter)

lemma unregister_all_fst: "fst (unregister_all cs s) = prune (\<lambda>c. c \<in> set cs) s"
proof (induction cs arbitrary: s)
  case Nil
  show ?case by (simp add: prune_def dlist_filter_id)
next
  case (Cons c cs)
  have "fst (unregister_all (c # cs) s) = fst (unregister_all cs (fst (unregister_client c s)))"
    by (simp add: split_def Let_def)
  also have "\<dots> = prune (\<lambda>x. x \<in> set cs) (prune (\<lambda>x. x = c) s)"
    by (simp add: Cons.IH unregister_client_prune)
  also have "\<dots> = prune (\<lambda>x. x \<in> set (c # cs)) s"
    by (simp add: prune_prune)
  finally show ?case .
qed

lemma unregister_all_snd: "snd (unregister_all cs s) = map Unregister cs"
  by (induction cs arbitrary: s) (simp_all add: split_def Let_def unregister_client_def)

lemma unregister_all2_fst: "fst (unregister_all2 cs s) = prune (\<lambda>c. c \<in> set cs) s"
proof (induction cs arbitrary: s)
  case Nil
  show ?case by (simp add: prune_def dlist_filter_id)
next
  case (Cons c cs)
  have "fst (unregister_all2 (c # cs) s) = fst (unregister_all2 cs (fst (unregister_client2 c s)))"
    by (simp add: split_def Let_def)
  also have "\<dots> = prune (\<lambda>x. x \<in> set cs) (prune (\<lambda>x. x = c) s)"
    by (simp add: Cons.IH unregister_client2_prune)
  also have "\<dots> = prune (\<lambda>x. x \<in> set (c # cs)) s"
    by (simp add: prune_prune)
  finally show ?case .
qed

lemma unregister_all2_snd: "snd (unregister_all2 cs s) = map Unregister cs"
  by (induction cs arbitrary: s) (simp_all add: split_def Let_def unregister_client2_def)

lemma send_loop_snd: "snd (send_loop tr m vs disc) = map (\<lambda>v. Send v m (send_outcome (tr v))) vs"
  by (induction vs arbitrary: disc) (simp_all add: split_def Let_def)

lemma send_loop_fst_set:
  "set (list_of_dlist (fst (send_loop tr m vs disc)))
     = set (list_of_dlist disc) \<union> {v \<in> set vs. send_fails tr v}"
  by (induction vs arbitrary: disc) (auto simp add: split_def Let_def send_fails_def)

lemma send_loop_fst_list:
  "distinct vs \<Longrightarrow> set vs \<inter> set (list_of_dlist disc) = {} \<Longrightarrow>
   list_of_dlist (fst (send_loop tr m vs disc))
     = rev (filter (send_fails tr) vs) @ list_of_dlist disc"
  by (induction vs arbitrary: disc) (auto simp add: split_def Let_def send_fails_def)

section \<open>What a broadcast does\<close>

lemma dlist_null_iff: "Dlist.null d \<longleftrightarrow> list_of_dlist d = []"
  by (simp add: Dlist.null_def)

lemma prune_none: "(\<And>c. \<not> P c) \<Longrightarrow> prune P s = s"
  by (simp add: prune_def dlist_filter_id)

lemma prune_cong: "(\<And>c. P c = Q c) \<Longrightarrow> prune P s = prune Q s"
  by (simp add: prune_def)

lemma handle_screen_data_fst:
  "fst (handle_screen_data tr now d s) =
     prune (\<lambda>c. mem c (screen_viewers s) \<and> send_fails tr c)
       (s\<lparr> current_screen_data := Some (frame_of now d), screen_info := dims_of d \<rparr>)"
proof (cases "Dlist.null (screen_viewers s)")
  case True
  then have "\<And>c. \<not> (mem c (screen_viewers s) \<and> send_fails tr c)"
    by (simp add: dlist_null_iff)
  then show ?thesis using True
    by (simp add: handle_screen_data_def prune_none)
next
  case False
  then show ?thesis
    by (simp add: handle_screen_data_def Let_def split_def unregister_all_fst
        send_loop_fst_set cong: prune_cong)
qed

lemma handle_screen_data_snd:
  "snd (handle_screen_data tr now d s) =
     map (\<lambda>v. Send v (Screenshot (frame_of now d)) (send_outcome (tr v)))
       (list_of_dlist (screen_viewers s))
     @ map Unregister (rev (filter (send_fails tr) (list_of_dlist (screen_viewers s))))"
proof (cases "Dlist.null (screen_viewers s)")
  case True
  then show ?thesis
    by (simp add: handle_screen_data_def dlist_null_iff)
next
  case False
  then show ?thesis
    by (simp add: handle_screen_data_def Let_def split_def unregister_all_snd
        send_loop_snd send_loop_fst_list)
qed

lemma handle_control_event_fst:
  "fst (handle_control_event tr w d s) =
     prune (\<lambda>c. mem c (screen_providers s) \<and> send_fails tr c) s"
proof (cases "Dlist.null (screen_providers s)")
  case True
  then have "\<And>c. \<not> (mem c (screen_providers s) \<and> send_fails tr c)"
    by (simp add: dlist_null_iff)
  then show ?thesis using True
    by (simp add: handle_control_event_def prune_none)
next
  case False
  then show ?thesis
    by (simp add: handle_control_event_def Let_def split_def unregister_all_fst
        send_loop_fst_set cong: prune_cong)
qed

lemma handle_control_event_snd:
  "snd (handle_control_event tr w d s) =
     map (\<lambda>v. Send v (Control d) (send_outcome (tr v))) (list_of_dlist (screen_providers s))
     @ map Unregister (rev (filter (send_fails tr) (list_of_dlist (screen_providers s))))"
proof (cases "Dlist.null (screen_providers s)")
  case True
  then show ?thesis
    by (simp add: handle_control_event_def dlist_null_iff)
next
  case False
  then show ?thesis
    by (simp add: handle_control_event_def Let_def split_def unregister_all_snd
        send_loop_snd send_loop_fst_list)
qed

lemma gather_sends_fst:
  "fst (gather_sends tr m vs) = map (\<lambda>v. fst (send_to_client tr v m)) vs"
  by (induction vs) (simp_all add: split_def Let_def)

lemma gather_sends_snd:
  "snd (gather_sends tr m vs) =
     map (\<lambda>v. Send v m (send_outcome (tr v))) (filter (\<lambda>v. state_open (tr v)) vs)"
  by (induction vs) (simp_all add: split_def Let_def send_to_client_def)

lemma send_to_client_fails: "fst (send_to_client tr v m) = Sent \<longleftrightarrow> \<not> send_fails2 tr v"
  by (simp add: send_to_client_def send_fails2_def)

lemma collect_results_fst_set:
  "set (list_of_dlist (fst (collect_results (zip vs (map f vs)) disc n)))
     = set (list_of_dlist disc) \<union> {v \<in> set vs. f v \<noteq> Sent}"
  by (induction vs arbitrary: disc n) auto

lemma collect_results_fst_list:
  "distinct vs \<Longrightarrow> set vs \<inter> set (list_of_dlist disc) = {} \<Longrightarrow>
   list_of_dlist (fst (collect_results (zip vs (map f vs)) disc n))
     = rev (filter (\<lambda>v. f v \<noteq> Sent) vs) @ list_of_dlist disc"
  by (induction vs arbitrary: disc n) auto

lemma collect_results_snd:
  "snd (collect_results (zip vs (map f vs)) disc n)
     = n + int (length (filter (\<lambda>v. f v = Sent) vs))"
  by (induction vs arbitrary: disc n) auto

lemma broadcast_to_viewers_fst:
  "fst (broadcast_to_viewers tr m s) =
     prune (\<lambda>c. mem c (screen_viewers s) \<and> send_fails2 tr c)
       (s\<lparr> messages_sent := messages_sent s
             + int (length (filter (\<lambda>v. \<not> send_fails2 tr v) (list_of_dlist (screen_viewers s)))) \<rparr>)"
proof (cases "Dlist.null (screen_viewers s)")
  case True
  then have "\<And>c. \<not> (mem c (screen_viewers s) \<and> send_fails2 tr c)"
    by (simp add: dlist_null_iff)
  then show ?thesis using True
    by (simp add: broadcast_to_viewers_def prune_none dlist_null_iff)
next
  case False
  then show ?thesis
    by (simp add: broadcast_to_viewers_def Let_def split_def unregister_all2_fst
        gather_sends_fst collect_results_fst_set collect_results_snd send_to_client_fails)
qed

lemma broadcast_to_viewers_snd:
  "snd (broadcast_to_viewers tr m s) =
     map (\<lambda>v. Send v m (send_outcome (tr v)))
       (filter (\<lambda>v. state_open (tr v)) (list_of_dlist (screen_viewers s)))
     @ map Unregister (rev (filter (send_fails2 tr) (list_of_dlist (screen_viewers s))))"
proof (cases "Dlist.null (screen_viewers s)")
  case True
  then show ?thesis
    by (simp add: broadcast_to_viewers_def dlist_null_iff)
next
  case False
  then show ?thesis
    by (simp add: broadcast_to_viewers_def Let_def split_def unregister_all2_snd
        gather_sends_fst gather_sends_snd collect_results_fst_list send_to_client_fails)
qed

lemma broadcast_to_providers_fst:
  "fst (broadcast_to_providers tr m s) =
     prune (\<lambda>c. mem c (screen_providers s) \<and> send_fails2 tr c)
       (s\<lparr> messages_sent := messages_sent s
             + int (length (filter (\<lambda>v. \<not> send_fails2 tr v) (list_of_dlist (screen_providers s)))) \<rparr>)"
proof (cases "Dlist.null (screen_providers s)")
  case True
  then have "\<And>c. \<not> (mem c (screen_providers s) \<and> send_fails2 tr c)"
    by (simp add: dlist_null_iff)
  then show ?thesis using True
    by (simp add: broadcast_to_providers_def prune_none dlist_null_iff)
next
  case False
  then show ?thesis
    by (simp add: broadcast_to_providers_def Let_def split_def unregister_all2_fst
        gather_sends_fst collect_results_fst_set collect_results_snd send_to_client_fails)
qed

lemma broadcast_to_providers_snd:
  "snd (broadcast_to_providers tr m s) =
     map (\<lambda>v. Send v m (send_outcome (tr v)))
       (filter (\<lambda>v. state_open (tr v)) (list_of_dlist (screen_providers s)))
     @ map Unregister (rev (filter (send_fails2 tr) (list_of_dlist (screen_providers s))))"
proof (cases "Dlist.null (screen_providers s)")
  case True
  then show ?thesis
    by (simp add: broadcast_to_providers_def dlist_null_iff)
next
  case False
  then show ?thesis
    by (simp add: broadcast_to_providers_def Let_def split_def unregister_all2_snd
        gather_sends_fst gather_sends_snd collect_results_fst_list send_to_client_fails)
qed

section \<open>Unregistering twice\<close>

text \<open>
  Claim C8. \<^verbatim>\<open>unregister_client\<close> is idempotent and total, in both revisions: it is a
  function that returns a registry for every registry and every connection (no error
  result exists), calling it a second time on the same connection gives the registry
  of the first call, so the status with all set sizes is unchanged by the redundant
  call, and on a connection that is in none of the sets it changes nothing.
\<close>

theorem unregister_client_idempotent:
  "fst (unregister_client w (fst (unregister_client w s))) = fst (unregister_client w s) \<and>
   fst (unregister_client2 w (fst (unregister_client2 w s2))) = fst (unregister_client2 w s2) \<and>
   get_server_status (fst (unregister_client w (fst (unregister_client w s))))
     = get_server_status (fst (unregister_client w s)) \<and>
   get_server_status2 (fst (unregister_client2 w (fst (unregister_client2 w s2))))
     = get_server_status2 (fst (unregister_client2 w s2)) \<and>
   (\<not> mem w (clients s) \<and> \<not> mem w (screen_providers s) \<and> \<not> mem w (screen_viewers s)
      \<and> \<not> mem w (control_clients s) \<longrightarrow> fst (unregister_client w s) = s) \<and>
   (\<not> mem w (clients s2) \<and> \<not> mem w (screen_providers s2) \<and> \<not> mem w (screen_viewers s2)
      \<and> \<not> mem w (control_clients s2) \<longrightarrow> fst (unregister_client2 w s2) = s2)"
  by (simp add: unregister_client_def unregister_client2_def dlist_remove_idem
      dlist_remove_absent)

theorem unregister_client_idempotent_witness:
  "\<not> mem 1 (clients init) \<and> \<not> mem 1 (screen_providers init) \<and>
   \<not> mem 1 (screen_viewers init) \<and> \<not> mem 1 (control_clients init) \<and>
   fst (unregister_client 1 init) = init \<and>
   \<not> mem 1 (clients (init2 0)) \<and> \<not> mem 1 (screen_providers (init2 0)) \<and>
   \<not> mem 1 (screen_viewers (init2 0)) \<and> \<not> mem 1 (control_clients (init2 0)) \<and>
   fst (unregister_client2 1 (init2 0)) = init2 0 \<and>
   fst (unregister_client 1 (fst (unregister_client 1 three_roles)))
     = fst (unregister_client 1 three_roles)"
  using unregister_client_idempotent [of 1 init "init2 0"]
    unregister_client_idempotent [of 1 three_roles "init2 0"]
  by (simp add: init_def init2_def)

section \<open>The registry after one message\<close>

lemma handle_screen_data2_fst:
  "fst (handle_screen_data2 tr now d s) =
     prune (\<lambda>c. mem c (screen_viewers s) \<and> send_fails2 tr c)
       (s\<lparr> current_screen_data := Some (frame_of now d), screen_info := dims_of d,
            messages_sent := messages_sent s
             + int (length (filter (\<lambda>v. \<not> send_fails2 tr v) (list_of_dlist (screen_viewers s)))) \<rparr>)"
proof (cases "Dlist.null (screen_viewers s)")
  case True
  then have "\<And>c. \<not> (mem c (screen_viewers s) \<and> send_fails2 tr c)"
    by (simp add: dlist_null_iff)
  then show ?thesis using True
    by (simp add: handle_screen_data2_def prune_none dlist_null_iff)
next
  case False
  then show ?thesis
    by (simp add: handle_screen_data2_def broadcast_to_viewers_fst)
qed

lemma handle_screen_data2_snd:
  "snd (handle_screen_data2 tr now d s) =
     map (\<lambda>v. Send v (Screenshot (frame_of now d)) (send_outcome (tr v)))
       (filter (\<lambda>v. state_open (tr v)) (list_of_dlist (screen_viewers s)))
     @ map Unregister (rev (filter (send_fails2 tr) (list_of_dlist (screen_viewers s))))"
proof (cases "Dlist.null (screen_viewers s)")
  case True
  then show ?thesis
    by (simp add: handle_screen_data2_def dlist_null_iff)
next
  case False
  then show ?thesis
    by (simp add: handle_screen_data2_def broadcast_to_viewers_snd)
qed

lemma handle_control_event2_fst:
  "fst (handle_control_event2 tr w d s) =
     (if Dlist.null (screen_providers s) \<or> log_raises d then s
      else prune (\<lambda>c. mem c (screen_providers s) \<and> send_fails2 tr c)
        (s\<lparr> messages_sent := messages_sent s
             + int (length (filter (\<lambda>v. \<not> send_fails2 tr v) (list_of_dlist (screen_providers s)))) \<rparr>))"
  by (simp add: handle_control_event2_def broadcast_to_providers_fst)

lemma handle_control_event2_snd:
  "snd (handle_control_event2 tr w d s) =
     (if log_raises d then []
      else map (\<lambda>v. Send v (Control d) (send_outcome (tr v)))
             (filter (\<lambda>v. state_open (tr v)) (list_of_dlist (screen_providers s)))
           @ map Unregister (rev (filter (send_fails2 tr) (list_of_dlist (screen_providers s)))))"
  by (simp add: handle_control_event2_def broadcast_to_providers_snd dlist_null_iff)

lemma handle_client_message_obj:
  "fst (handle_client_message tr now w (Decoded (JObj d)) s) =
     (if dict_get d ''type'' JNull = JStr ''register''
        then fst (register_client tr w (dict_get d ''client_type'' (JStr ''viewer'')) s)
      else if dict_get d ''type'' JNull = JStr ''screen_data''
        then fst (handle_screen_data tr now d s)
      else if dict_get d ''type'' JNull = JStr ''mouse''
              \<or> dict_get d ''type'' JNull = JStr ''keyboard''
        then fst (handle_control_event tr w d s)
      else s)"
  by (simp add: handle_client_message_def Let_def split_def split: option.splits)

lemma handle_client_message_other:
  "(\<And>d. msg \<noteq> Decoded (JObj d)) \<Longrightarrow> handle_client_message tr now w msg s = (s, [])"
  by (cases msg; simp add: handle_client_message_def split: jval.splits)

lemma reply2_fst:
  "fst (reply2 tr w m s) =
     s\<lparr> messages_sent := messages_sent s + (if send_outcome (tr w) = Sent then 1 else 0) \<rparr>"
  by (simp add: reply2_def)

lemma handle_client_message2_obj:
  "fst (handle_client_message2 tr now w (Decoded (JObj d)) s) =
     (if dict_get d ''type'' JNull = JStr ''register''
        then fst (reply2 tr w (Register_ack (dict_get d ''client_type'' (JStr ''viewer''))
                    (screen_info s))
               (fst (register_client2 tr w (dict_get d ''client_type'' (JStr ''viewer''))
                  (s\<lparr> messages_received := messages_received s + 1 \<rparr>))))
      else if dict_get d ''type'' JNull = JStr ''screen_data''
        then fst (handle_screen_data2 tr now d (s\<lparr> messages_received := messages_received s + 1 \<rparr>))
      else if dict_get d ''type'' JNull = JStr ''mouse''
              \<or> dict_get d ''type'' JNull = JStr ''keyboard''
        then fst (handle_control_event2 tr w d (s\<lparr> messages_received := messages_received s + 1 \<rparr>))
      else if dict_get d ''type'' JNull = JStr ''get_screenshot''
              \<or> dict_get d ''type'' JNull = JStr ''ping''
        then fst (reply2 tr w Pong (s\<lparr> messages_received := messages_received s + 1 \<rparr>))
      else s\<lparr> messages_received := messages_received s + 1 \<rparr>)"
  by (simp add: handle_client_message2_def Let_def split_def reply2_fst split: option.splits)

lemma handle_client_message2_other:
  "(\<And>d. msg \<noteq> Decoded (JObj d)) \<Longrightarrow> handle_client_message2 tr now w msg s = (s, [])"
  by (cases msg; simp add: handle_client_message2_def split: jval.splits)

section \<open>Role sets stay within the set of all connections\<close>

lemma within_register:
  "roles_within_clients s \<Longrightarrow> roles_within_clients (fst (register_client tr w ct s))"
  by (auto simp add: roles_within_clients_def register_client_def Let_def)

lemma within_register2:
  "roles_within_clients s \<Longrightarrow> roles_within_clients (fst (register_client2 tr w ct s))"
  by (auto simp add: roles_within_clients_def register_client2_def Let_def split: option.splits)

lemma within_prune: "roles_within_clients s \<Longrightarrow> roles_within_clients (prune P s)"
  by (auto simp add: roles_within_clients_def prune_def)

lemma within_fields:
  "roles_within_clients (s\<lparr> current_screen_data := x \<rparr>) = roles_within_clients s"
  "roles_within_clients (s\<lparr> screen_info := y \<rparr>) = roles_within_clients s"
  "roles_within_clients (t\<lparr> messages_sent := k \<rparr>) = roles_within_clients t"
  "roles_within_clients (t\<lparr> messages_received := k \<rparr>) = roles_within_clients t"
  by (simp_all add: roles_within_clients_def)

lemma within_message:
  assumes "roles_within_clients s"
  shows "roles_within_clients (fst (handle_client_message tr now w msg s))"
proof (cases "\<exists>d. msg = Decoded (JObj d)")
  case True
  then obtain d where "msg = Decoded (JObj d)" by blast
  then show ?thesis using assms
    by (simp add: handle_client_message_obj handle_screen_data_fst handle_control_event_fst
        within_register within_prune within_fields)
next
  case False
  then show ?thesis using assms by (simp add: handle_client_message_other)
qed

lemma within_message2:
  assumes "roles_within_clients s"
  shows "roles_within_clients (fst (handle_client_message2 tr now w msg s))"
proof (cases "\<exists>d. msg = Decoded (JObj d)")
  case True
  then obtain d where "msg = Decoded (JObj d)" by blast
  then show ?thesis using assms
    by (simp add: handle_client_message2_obj handle_screen_data2_fst handle_control_event2_fst
        reply2_fst within_register2 within_prune within_fields)
next
  case False
  then show ?thesis using assms by (simp add: handle_client_message2_other)
qed

lemma within_step: "roles_within_clients s \<Longrightarrow> roles_within_clients (step x s)"
  by (cases x) (simp_all add: within_register within_message unregister_client_prune within_prune)

lemma within_step2: "roles_within_clients s \<Longrightarrow> roles_within_clients (step2 x s)"
  by (cases x) (simp_all add: within_register2 within_message2 unregister_client2_prune within_prune)

lemma within_exec: "roles_within_clients s \<Longrightarrow> roles_within_clients (exec xs s)"
  by (induction xs arbitrary: s) (simp_all add: within_step)

lemma within_exec2: "roles_within_clients s \<Longrightarrow> roles_within_clients (exec2 xs s)"
  by (induction xs arbitrary: s) (simp_all add: within_step2)

lemma within_init: "roles_within_clients init" "roles_within_clients (init2 t)"
  by (simp_all add: roles_within_clients_def init_def init2_def)

section \<open>Event lists\<close>

lemma unregister_calls_append:
  "unregister_calls (xs @ ys) = unregister_calls xs @ unregister_calls ys"
  by (induction xs rule: unregister_calls.induct) simp_all

lemma unregister_calls_sends: "unregister_calls (map (\<lambda>v. Send v m (f v)) vs) = []"
  by (induction vs) simp_all

lemma unregister_calls_marks: "unregister_calls (map Unregister cs) = cs"
  by (induction cs) simp_all

lemma delivered_to_append: "delivered_to m (xs @ ys) = delivered_to m xs @ delivered_to m ys"
  by (induction m xs rule: delivered_to.induct) simp_all

lemma delivered_to_sends:
  "delivered_to m (map (\<lambda>v. Send v m (f v)) vs) = filter (\<lambda>v. f v = Sent) vs"
  by (induction vs) simp_all

lemma delivered_to_marks: "delivered_to m (map Unregister cs) = []"
  by (induction cs) simp_all

lemma attempted_to_append: "attempted_to (xs @ ys) = attempted_to xs @ attempted_to ys"
  by (induction xs rule: attempted_to.induct) simp_all

lemma attempted_to_sends: "attempted_to (map (\<lambda>v. Send v m (f v)) vs) = vs"
  by (induction vs) simp_all

lemma attempted_to_marks: "attempted_to (map Unregister cs) = []"
  by (induction cs) simp_all

lemma length_filter_not: "length (filter (\<lambda>v. \<not> P v) vs) = length vs - length (filter P vs)"
  using sum_length_filter_compl [of P vs] by simp

lemma viewers_prune:
  "list_of_dlist (screen_viewers (prune P s))
     = filter (\<lambda>c. \<not> P c) (list_of_dlist (screen_viewers s))"
  by (simp add: prune_def)

lemma providers_prune:
  "list_of_dlist (screen_providers (prune P s))
     = filter (\<lambda>c. \<not> P c) (list_of_dlist (screen_providers s))"
  by (simp add: prune_def)

lemma fields_prune:
  "current_screen_data (prune P s) = current_screen_data s"
  "screen_info (prune P s) = screen_info s"
  "running (prune P s) = running s"
  by (simp_all add: prune_def)

lemma counters_prune:
  "messages_sent (prune P t) = messages_sent t"
  "messages_received (prune P t) = messages_received t"
  "start_time (prune P t) = start_time t"
  by (simp_all add: prune_def)

section \<open>Partial failure of a broadcast\<close>

lemma three_viewers_list: "list_of_dlist (screen_viewers three_viewers) = [3, 2, 1]"
  by (simp add: three_viewers_def register_client_def init_def Let_def)

lemma three_viewers2_list: "list_of_dlist (screen_viewers three_viewers2) = [3, 2, 1]"
  by (simp add: three_viewers2_def register_client2_def init2_def Let_def)

lemma three_viewers2_sent: "messages_sent three_viewers2 = 0"
  by (simp add: three_viewers2_def register_client2_def init2_def Let_def)

lemma one_closed_fails [simp]:
  "send_fails2 (one_closed x) c = (c = x)" "send_fails (one_closed x) c = (c = x)"
  by (simp_all add: send_fails2_def send_fails_def one_closed_def open_peer_def closed_peer_def)

text \<open>
  A broadcast to the viewer set that no other handler disturbs and in which every send
  returns, with N targets of which the send to M fails. In \<^verbatim>\<open>muma2.0.py\<close>
  (\<^verbatim>\<open>_broadcast_to_viewers\<close>): the results collected by \<^verbatim>\<open>asyncio.gather\<close> hold
  exactly M exceptions and N - M successes, the counter \<^verbatim>\<open>stats['messages_sent']\<close>
  grows by N - M, \<^verbatim>\<open>unregister_client\<close> is called exactly once on each failed target
  and on no other, the viewer set afterwards is the former one without the M failed
  targets, and the payload was delivered to exactly the N - M others. In \<^verbatim>\<open>muma.py\<close>
  (the loop in \<^verbatim>\<open>handle_screen_data\<close>), which keeps no counters: the same about the
  calls of \<^verbatim>\<open>unregister_client\<close>, the viewer set and the deliveries.
\<close>

lemma undisturbed_broadcast_partial_failure:
  fixes s :: server2 and t :: server
  assumes b2: "broadcast_to_viewers tr m s = (s', evs)"
    and b1: "handle_screen_data tr1 now d t = (t', evs1)"
  shows
    "length (filter (\<lambda>r. r \<noteq> Sent) (fst (gather_sends tr m (list_of_dlist (screen_viewers s)))))
       = length (filter (send_fails2 tr) (list_of_dlist (screen_viewers s))) \<and>
     length (filter (\<lambda>r. r = Sent) (fst (gather_sends tr m (list_of_dlist (screen_viewers s)))))
       = Dlist.length (screen_viewers s)
           - length (filter (send_fails2 tr) (list_of_dlist (screen_viewers s))) \<and>
     messages_sent s' = messages_sent s
       + int (Dlist.length (screen_viewers s)
           - length (filter (send_fails2 tr) (list_of_dlist (screen_viewers s)))) \<and>
     distinct (unregister_calls evs) \<and>
     set (unregister_calls evs) = {v. mem v (screen_viewers s) \<and> send_fails2 tr v} \<and>
     length (unregister_calls evs)
       = length (filter (send_fails2 tr) (list_of_dlist (screen_viewers s))) \<and>
     list_of_dlist (screen_viewers s')
       = filter (\<lambda>v. \<not> send_fails2 tr v) (list_of_dlist (screen_viewers s)) \<and>
     Dlist.length (screen_viewers s')
       = Dlist.length (screen_viewers s)
           - length (filter (send_fails2 tr) (list_of_dlist (screen_viewers s))) \<and>
     delivered_to m evs
       = filter (\<lambda>v. \<not> send_fails2 tr v) (list_of_dlist (screen_viewers s)) \<and>
     distinct (unregister_calls evs1) \<and>
     set (unregister_calls evs1) = {v. mem v (screen_viewers t) \<and> send_fails tr1 v} \<and>
     length (unregister_calls evs1)
       = length (filter (send_fails tr1) (list_of_dlist (screen_viewers t))) \<and>
     list_of_dlist (screen_viewers t')
       = filter (\<lambda>v. \<not> send_fails tr1 v) (list_of_dlist (screen_viewers t)) \<and>
     Dlist.length (screen_viewers t')
       = Dlist.length (screen_viewers t)
           - length (filter (send_fails tr1) (list_of_dlist (screen_viewers t))) \<and>
     delivered_to (Screenshot (frame_of now d)) evs1
       = filter (\<lambda>v. \<not> send_fails tr1 v) (list_of_dlist (screen_viewers t))"
proof -
  let ?vs = "list_of_dlist (screen_viewers s)"
  let ?ws = "list_of_dlist (screen_viewers t)"
  have s': "s' = fst (broadcast_to_viewers tr m s)"
    and evs: "evs = snd (broadcast_to_viewers tr m s)"
    using b2 by simp_all
  have t': "t' = fst (handle_screen_data tr1 now d t)"
    and evs1: "evs1 = snd (handle_screen_data tr1 now d t)"
    using b1 by simp_all
  have calls: "unregister_calls evs = rev (filter (send_fails2 tr) ?vs)"
    by (simp add: evs broadcast_to_viewers_snd unregister_calls_append unregister_calls_sends
        unregister_calls_marks)
  have calls1: "unregister_calls evs1 = rev (filter (send_fails tr1) ?ws)"
    by (simp add: evs1 handle_screen_data_snd unregister_calls_append unregister_calls_sends
        unregister_calls_marks)
  have res: "fst (gather_sends tr m ?vs) = map (\<lambda>v. fst (send_to_client tr v m)) ?vs"
    by (rule gather_sends_fst)
  have c1: "length (filter (\<lambda>r. r \<noteq> Sent) (fst (gather_sends tr m ?vs)))
           = length (filter (send_fails2 tr) ?vs)"
    by (simp add: res filter_map comp_def send_to_client_fails)
  have c2: "length (filter (\<lambda>r. r = Sent) (fst (gather_sends tr m ?vs)))
           = Dlist.length (screen_viewers s) - length (filter (send_fails2 tr) ?vs)"
    by (simp add: res filter_map comp_def send_to_client_fails length_filter_not Dlist.length_def)
  have c3: "messages_sent s' = messages_sent s
           + int (Dlist.length (screen_viewers s) - length (filter (send_fails2 tr) ?vs))"
    by (simp add: s' broadcast_to_viewers_fst counters_prune length_filter_not Dlist.length_def)
  have c4: "distinct (unregister_calls evs)"
    by (simp add: calls)
  have c5: "set (unregister_calls evs) = {v. mem v (screen_viewers s) \<and> send_fails2 tr v}"
    by (auto simp add: calls)
  have c6: "length (unregister_calls evs) = length (filter (send_fails2 tr) ?vs)"
    by (simp add: calls)
  have c7: "list_of_dlist (screen_viewers s') = filter (\<lambda>v. \<not> send_fails2 tr v) ?vs"
    by (simp add: s' broadcast_to_viewers_fst viewers_prune cong: filter_cong)
  have c8: "Dlist.length (screen_viewers s')
           = Dlist.length (screen_viewers s) - length (filter (send_fails2 tr) ?vs)"
    by (simp add: Dlist.length_def c7 length_filter_not)
  have c9: "delivered_to m evs = filter (\<lambda>v. \<not> send_fails2 tr v) ?vs"
    by (simp add: evs broadcast_to_viewers_snd delivered_to_append delivered_to_sends
        delivered_to_marks send_fails2_def cong: conj_cong)
  have d4: "distinct (unregister_calls evs1)"
    by (simp add: calls1)
  have d5: "set (unregister_calls evs1) = {v. mem v (screen_viewers t) \<and> send_fails tr1 v}"
    by (auto simp add: calls1)
  have d6: "length (unregister_calls evs1) = length (filter (send_fails tr1) ?ws)"
    by (simp add: calls1)
  have d7: "list_of_dlist (screen_viewers t') = filter (\<lambda>v. \<not> send_fails tr1 v) ?ws"
    by (simp add: t' handle_screen_data_fst viewers_prune cong: filter_cong)
  have d8: "Dlist.length (screen_viewers t')
           = Dlist.length (screen_viewers t) - length (filter (send_fails tr1) ?ws)"
    by (simp add: Dlist.length_def d7 length_filter_not)
  have d9: "delivered_to (Screenshot (frame_of now d)) evs1
           = filter (\<lambda>v. \<not> send_fails tr1 v) ?ws"
    by (simp add: evs1 handle_screen_data_snd delivered_to_append delivered_to_sends
        delivered_to_marks send_fails_def)
  show ?thesis
    by (intro conjI c1 c2 c3 c4 c5 c6 c7 c8 c9 d4 d5 d6 d7 d8 d9)
qed

text \<open>Three viewers of which the second is closed: two deliveries, one call of
  \<^verbatim>\<open>unregister_client\<close>, two viewers left.\<close>

lemma undisturbed_broadcast_example:
  "messages_sent (fst (broadcast_to_viewers (one_closed 2) Pong three_viewers2)) = 2 \<and>
   unregister_calls (snd (broadcast_to_viewers (one_closed 2) Pong three_viewers2)) = [2] \<and>
   list_of_dlist (screen_viewers (fst (broadcast_to_viewers (one_closed 2) Pong three_viewers2)))
     = [3, 1] \<and>
   delivered_to Pong (snd (broadcast_to_viewers (one_closed 2) Pong three_viewers2)) = [3, 1] \<and>
   list_of_dlist (screen_viewers
       (fst (handle_screen_data (one_closed 2) 0 (screen_data_dict 0 0) three_viewers)))
     = [3, 1] \<and>
   delivered_to (Screenshot (frame_of 0 (screen_data_dict 0 0)))
       (snd (handle_screen_data (one_closed 2) 0 (screen_data_dict 0 0) three_viewers))
     = [3, 1]"
proof -
  note w = undisturbed_broadcast_partial_failure [of "one_closed 2" Pong three_viewers2
      "fst (broadcast_to_viewers (one_closed 2) Pong three_viewers2)"
      "snd (broadcast_to_viewers (one_closed 2) Pong three_viewers2)"
      "one_closed 2" 0 "screen_data_dict 0 0" three_viewers
      "fst (handle_screen_data (one_closed 2) 0 (screen_data_dict 0 0) three_viewers)"
      "snd (handle_screen_data (one_closed 2) 0 (screen_data_dict 0 0) three_viewers)"]
  have len: "length (unregister_calls (snd (broadcast_to_viewers (one_closed 2) Pong three_viewers2))) = 1"
    and set: "set (unregister_calls (snd (broadcast_to_viewers (one_closed 2) Pong three_viewers2))) = {2}"
    using w by (auto simp add: three_viewers2_list)
  have "unregister_calls (snd (broadcast_to_viewers (one_closed 2) Pong three_viewers2)) = [2]"
    using len set by (cases "unregister_calls (snd (broadcast_to_viewers (one_closed 2) Pong three_viewers2))") auto
  then show ?thesis
    using w by (simp add: three_viewers2_list three_viewers_list three_viewers2_sent Dlist.length_def)
qed

section \<open>Membership in role sets\<close>

lemma register_client_sets:
  "set (list_of_dlist (clients (fst (register_client tr w ct s))))
     = insert w (set (list_of_dlist (clients s)))"
  "set (list_of_dlist (screen_providers (fst (register_client tr w ct s))))
     = set (list_of_dlist (screen_providers s)) \<union> (if ct = JStr ''provider'' then {w} else {})"
  "set (list_of_dlist (control_clients (fst (register_client tr w ct s))))
     = set (list_of_dlist (control_clients s))
         \<union> (if ct \<noteq> JStr ''provider'' \<and> ct = JStr ''controller'' then {w} else {})"
  "set (list_of_dlist (screen_viewers (fst (register_client tr w ct s))))
     = set (list_of_dlist (screen_viewers s))
         \<union> (if ct \<noteq> JStr ''provider'' \<and> ct \<noteq> JStr ''controller'' then {w} else {})"
  by (simp_all add: register_client_def Let_def)

lemma register_client2_sets:
  "set (list_of_dlist (clients (fst (register_client2 tr w ct s))))
     = insert w (set (list_of_dlist (clients s)))"
  "set (list_of_dlist (screen_providers (fst (register_client2 tr w ct s))))
     = set (list_of_dlist (screen_providers s)) \<union> (if ct = JStr ''provider'' then {w} else {})"
  "set (list_of_dlist (control_clients (fst (register_client2 tr w ct s))))
     = set (list_of_dlist (control_clients s))
         \<union> (if ct \<noteq> JStr ''provider'' \<and> ct = JStr ''controller'' then {w} else {})"
  "set (list_of_dlist (screen_viewers (fst (register_client2 tr w ct s))))
     = set (list_of_dlist (screen_viewers s))
         \<union> (if ct \<noteq> JStr ''provider'' \<and> ct \<noteq> JStr ''controller'' then {w} else {})"
  by (simp_all add: register_client2_def Let_def split: option.splits)

text \<open>
  Claim C1 as stated fails. A connection accepted by \<^verbatim>\<open>handle_client\<close> (registered with
  the default \<^verbatim>\<open>client_type\<close>) that then sends a \<^verbatim>\<open>register\<close> message as provider
  is in the provider set and in the viewer set; a connection registered as provider and
  then as controller is in both of those sets. In both revisions.
\<close>

theorem exclusive_roles_counterexample:
  "role_count (exec [Op_register all_open 1 (JStr ''viewer''),
                     Op_message all_open 0 1 (register_msg ''provider'')] init) 1 = 2 \<and>
   role_count (exec2 [Op_register all_open 1 (JStr ''viewer''),
                      Op_message all_open 0 1 (register_msg ''provider'')] (init2 0)) 1 = 2 \<and>
   role_count (exec [Op_register all_open 1 (JStr ''provider''),
                     Op_register all_open 1 (JStr ''controller'')] init) 1 = 2 \<and>
   role_count (exec2 [Op_register all_open 1 (JStr ''provider''),
                      Op_register all_open 1 (JStr ''controller'')] (init2 0)) 1 = 2"
  by (simp add: role_count_def register_msg_def handle_client_message_obj
      handle_client_message2_obj reply2_fst register_client_sets register_client2_sets
      dict_get_def init_def init2_def)

text \<open>
  Claim C1, amended. In every registry reached from the initial one by any sequence of
  \<^verbatim>\<open>register_client\<close>, \<^verbatim>\<open>unregister_client\<close> and message dispatches, every member
  of a role set is in the set of all connections. \<^verbatim>\<open>register_client\<close> adds the
  connection to the set of all connections and to the one role set its
  \<^verbatim>\<open>client_type\<close> selects, and removes it from no role set: the members of the other
  role sets stay as they are, so the role sets are not kept exclusive. In both
  revisions.
\<close>

theorem roles_within_clients_invariant:
  "roles_within_clients (exec ops init) \<and>
   roles_within_clients (exec2 ops (init2 t)) \<and>
   set (list_of_dlist (clients (fst (register_client tr w ct s))))
     = insert w (set (list_of_dlist (clients s))) \<and>
   set (list_of_dlist (screen_providers (fst (register_client tr w ct s))))
     = set (list_of_dlist (screen_providers s)) \<union> (if ct = JStr ''provider'' then {w} else {}) \<and>
   set (list_of_dlist (control_clients (fst (register_client tr w ct s))))
     = set (list_of_dlist (control_clients s))
         \<union> (if ct \<noteq> JStr ''provider'' \<and> ct = JStr ''controller'' then {w} else {}) \<and>
   set (list_of_dlist (screen_viewers (fst (register_client tr w ct s))))
     = set (list_of_dlist (screen_viewers s))
         \<union> (if ct \<noteq> JStr ''provider'' \<and> ct \<noteq> JStr ''controller'' then {w} else {}) \<and>
   set (list_of_dlist (clients (fst (register_client2 tr w ct s2))))
     = insert w (set (list_of_dlist (clients s2))) \<and>
   set (list_of_dlist (screen_providers (fst (register_client2 tr w ct s2))))
     = set (list_of_dlist (screen_providers s2)) \<union> (if ct = JStr ''provider'' then {w} else {}) \<and>
   set (list_of_dlist (control_clients (fst (register_client2 tr w ct s2))))
     = set (list_of_dlist (control_clients s2))
         \<union> (if ct \<noteq> JStr ''provider'' \<and> ct = JStr ''controller'' then {w} else {}) \<and>
   set (list_of_dlist (screen_viewers (fst (register_client2 tr w ct s2))))
     = set (list_of_dlist (screen_viewers s2))
         \<union> (if ct \<noteq> JStr ''provider'' \<and> ct \<noteq> JStr ''controller'' then {w} else {})"
  by (intro conjI within_exec within_exec2 within_init register_client_sets register_client2_sets)

text \<open>
  The sequence accept, then register as provider, and a second registration of
  connection 1 in the registry of three roles.
\<close>

theorem roles_within_clients_invariant_witness:
  "roles_within_clients (exec [Op_register all_open 1 (JStr ''viewer''),
                     Op_message all_open 0 1 (register_msg ''provider'')] init) \<and>
   mem 1 (clients (exec [Op_register all_open 1 (JStr ''viewer''),
                     Op_message all_open 0 1 (register_msg ''provider'')] init)) \<and>
   set (list_of_dlist (screen_providers (fst (register_client all_open 1 (JStr ''provider'') three_roles))))
     = {1, 2} \<and>
   set (list_of_dlist (screen_viewers (fst (register_client all_open 1 (JStr ''provider'') three_roles))))
     = {1}"
proof -
  note w = roles_within_clients_invariant [of "[Op_register all_open 1 (JStr ''viewer''),
                     Op_message all_open 0 1 (register_msg ''provider'')]" 0
                     all_open 1 "JStr ''provider''" three_roles three_roles2]
  have "set (list_of_dlist (screen_providers three_roles)) = {2}"
    "set (list_of_dlist (screen_viewers three_roles)) = {1}"
    by (simp_all add: three_roles_def register_client_sets init_def)
  moreover have "mem 1 (clients (exec [Op_register all_open 1 (JStr ''viewer''),
                     Op_message all_open 0 1 (register_msg ''provider'')] init))"
    by (simp add: register_msg_def handle_client_message_obj register_client_sets dict_get_def)
  ultimately show ?thesis using w by auto
qed

section \<open>Accepting a connection and registering it as provider\<close>

lemma dlist_length_insert:
  "\<not> mem w d \<Longrightarrow> Dlist.length (Dlist.insert w d) = Dlist.length d + 1"
  by (simp add: Dlist.length_def)

text \<open>
  Claim C2 as stated fails. \<^verbatim>\<open>handle_client\<close> starts with
  \<^verbatim>\<open>register_client(websocket)\<close>, whose default \<^verbatim>\<open>client_type\<close> is \<^verbatim>\<open>'viewer'\<close>: from
  the initial registry the accepted connection is in the viewer set, and after its
  \<^verbatim>\<open>register\<close> message as provider the status shows one viewer where there was none
  before the connection was accepted. In both revisions.
\<close>

theorem accept_occupies_viewer_set_counterexample:
  "viewers_count (get_server_status init) = 0 \<and>
   mem 1 (screen_viewers (fst (register_client all_open 1 (JStr ''viewer'') init))) \<and>
   viewers_count (get_server_status
     (fst (handle_client_message all_open 0 1 (register_msg ''provider'')
        (fst (register_client all_open 1 (JStr ''viewer'') init))))) = 1 \<and>
   viewers_count (get_server_status2 (init2 0)) = 0 \<and>
   mem 1 (screen_viewers (fst (register_client2 all_open 1 (JStr ''viewer'') (init2 0)))) \<and>
   viewers_count (get_server_status2
     (fst (handle_client_message2 all_open 0 1 (register_msg ''provider'')
        (fst (register_client2 all_open 1 (JStr ''viewer'') (init2 0)))))) = 1"
  by (simp add: get_server_status_def get_server_status2_def register_msg_def
      handle_client_message_obj handle_client_message2_obj reply2_fst register_client_def
      register_client2_def dict_get_def init_def init2_def Let_def Dlist.length_def)

text \<open>
  Claim C2, amended. For a connection that is in neither the provider nor the viewer
  set, accepted by \<^verbatim>\<open>handle_client\<close> and then sending a \<^verbatim>\<open>register\<close> message with
  \<^verbatim>\<open>client_type\<close> \<^verbatim>\<open>'provider'\<close>: the status read afterwards shows one provider more
  than before the accept (so one, if there was none), one viewer more than before the
  accept, and the same number of controllers; between accept and registration the
  connection is in the viewer set, and it stays there. In both revisions.
\<close>

theorem provider_registration_counts:
  fixes s :: server and t :: server2
  assumes fresh: "\<not> mem w (screen_providers s)" "\<not> mem w (screen_viewers s)"
    and fresh2: "\<not> mem w (screen_providers t)" "\<not> mem w (screen_viewers t)"
    and reg: "dict_get d ''type'' JNull = JStr ''register''"
      "dict_get d ''client_type'' (JStr ''viewer'') = JStr ''provider''"
    and s1: "s1 = fst (register_client tr w (JStr ''viewer'') s)"
    and s2: "s2 = fst (handle_client_message tr' now w (Decoded (JObj d)) s1)"
    and t1: "t1 = fst (register_client2 tr w (JStr ''viewer'') t)"
    and t2: "t2 = fst (handle_client_message2 tr' now w (Decoded (JObj d)) t1)"
  shows
    "providers_count (get_server_status s2) = providers_count (get_server_status s) + 1 \<and>
     viewers_count (get_server_status s2) = viewers_count (get_server_status s) + 1 \<and>
     controllers_count (get_server_status s2) = controllers_count (get_server_status s) \<and>
     mem w (screen_viewers s1) \<and> mem w (screen_viewers s2) \<and> mem w (screen_providers s2) \<and>
     providers_count (get_server_status2 t2) = providers_count (get_server_status2 t) + 1 \<and>
     viewers_count (get_server_status2 t2) = viewers_count (get_server_status2 t) + 1 \<and>
     controllers_count (get_server_status2 t2) = controllers_count (get_server_status2 t) \<and>
     mem w (screen_viewers t1) \<and> mem w (screen_viewers t2) \<and> mem w (screen_providers t2)"
proof -
  have a: "providers_count (get_server_status s2) = providers_count (get_server_status s) + 1 \<and>
     viewers_count (get_server_status s2) = viewers_count (get_server_status s) + 1 \<and>
     controllers_count (get_server_status s2) = controllers_count (get_server_status s) \<and>
     mem w (screen_viewers s1) \<and> mem w (screen_viewers s2) \<and> mem w (screen_providers s2)"
    using fresh reg
    by (simp add: s1 s2 get_server_status_def handle_client_message_obj register_client_def
        Let_def Dlist.length_def)
  have b: "providers_count (get_server_status2 t2) = providers_count (get_server_status2 t) + 1 \<and>
     viewers_count (get_server_status2 t2) = viewers_count (get_server_status2 t) + 1 \<and>
     controllers_count (get_server_status2 t2) = controllers_count (get_server_status2 t) \<and>
     mem w (screen_viewers t1) \<and> mem w (screen_viewers t2) \<and> mem w (screen_providers t2)"
    using fresh2 reg
    by (simp add: t1 t2 get_server_status2_def handle_client_message2_obj reply2_fst
        register_client2_def Let_def Dlist.length_def split: option.splits)
  from a b show ?thesis by simp
qed

text \<open>
  From the initial registry: one provider and one viewer.
\<close>

theorem provider_registration_counts_witness:
  "\<not> mem 1 (screen_providers init) \<and> \<not> mem 1 (screen_viewers init) \<and>
   \<not> mem 1 (screen_providers (init2 0)) \<and> \<not> mem 1 (screen_viewers (init2 0)) \<and>
   dict_get [(''type'', JStr ''register''), (''client_type'', JStr ''provider'')] ''type'' JNull
     = JStr ''register'' \<and>
   dict_get [(''type'', JStr ''register''), (''client_type'', JStr ''provider'')] ''client_type''
     (JStr ''viewer'') = JStr ''provider'' \<and>
   providers_count (get_server_status
     (fst (handle_client_message all_open 0 1 (register_msg ''provider'')
        (fst (register_client all_open 1 (JStr ''viewer'') init))))) = 1 \<and>
   viewers_count (get_server_status
     (fst (handle_client_message all_open 0 1 (register_msg ''provider'')
        (fst (register_client all_open 1 (JStr ''viewer'') init))))) = 1 \<and>
   providers_count (get_server_status2
     (fst (handle_client_message2 all_open 0 1 (register_msg ''provider'')
        (fst (register_client2 all_open 1 (JStr ''viewer'') (init2 0)))))) = 1 \<and>
   viewers_count (get_server_status2
     (fst (handle_client_message2 all_open 0 1 (register_msg ''provider'')
        (fst (register_client2 all_open 1 (JStr ''viewer'') (init2 0)))))) = 1"
proof -
  have h: "\<not> mem 1 (screen_providers init)" "\<not> mem 1 (screen_viewers init)"
    "\<not> mem 1 (screen_providers (init2 0))" "\<not> mem 1 (screen_viewers (init2 0))"
    by (simp_all add: init_def init2_def)
  have g: "dict_get [(''type'', JStr ''register''), (''client_type'', JStr ''provider'')] ''type'' JNull
     = JStr ''register''"
    "dict_get [(''type'', JStr ''register''), (''client_type'', JStr ''provider'')] ''client_type''
     (JStr ''viewer'') = JStr ''provider''"
    by (simp_all add: dict_get_def)
  have z: "providers_count (get_server_status init) = 0" "viewers_count (get_server_status init) = 0"
    "providers_count (get_server_status2 (init2 0)) = 0" "viewers_count (get_server_status2 (init2 0)) = 0"
    by (simp_all add: get_server_status_def get_server_status2_def init_def init2_def Dlist.length_def)
  show ?thesis
    using provider_registration_counts [where tr = all_open and tr' = all_open and now = 0,
        OF h g refl refl refl refl] h g z
    by (simp add: register_msg_def)
qed

section \<open>The cached frame\<close>

lemma frame_register: "current_screen_data (fst (register_client tr w ct s)) = current_screen_data s"
  by (simp add: register_client_def Let_def)

lemma frame_register2: "current_screen_data (fst (register_client2 tr w ct s)) = current_screen_data s"
  by (simp add: register_client2_def Let_def split: option.splits)

lemma frame_message:
  "current_screen_data (fst (handle_client_message tr now w msg s)) =
     (if is_screen_data (Op_message tr now w msg)
      then Some (frame_of now (case msg of Decoded (JObj d) \<Rightarrow> d))
      else current_screen_data s)"
proof (cases "\<exists>d. msg = Decoded (JObj d)")
  case True
  then obtain d where "msg = Decoded (JObj d)" by blast
  then show ?thesis
    by (simp add: handle_client_message_obj handle_screen_data_fst handle_control_event_fst
        fields_prune frame_register)
next
  case False
  then have "\<not> is_screen_data (Op_message tr now w msg)"
    by (cases "(Op_message tr now w msg)" rule: is_screen_data.cases) auto
  then show ?thesis using False by (simp add: handle_client_message_other)
qed

lemma frame_message2:
  "current_screen_data (fst (handle_client_message2 tr now w msg s)) =
     (if is_screen_data (Op_message tr now w msg)
      then Some (frame_of now (case msg of Decoded (JObj d) \<Rightarrow> d))
      else current_screen_data s)"
proof (cases "\<exists>d. msg = Decoded (JObj d)")
  case True
  then obtain d where "msg = Decoded (JObj d)" by blast
  then show ?thesis
    by (simp add: handle_client_message2_obj handle_screen_data2_fst handle_control_event2_fst
        fields_prune frame_register2 reply2_fst)
next
  case False
  then have "\<not> is_screen_data (Op_message tr now w msg)"
    by (cases "(Op_message tr now w msg)" rule: is_screen_data.cases) auto
  then show ?thesis using False by (simp add: handle_client_message2_other)
qed

lemma frame_step:
  "current_screen_data (step x s) = current_screen_data s
     \<or> (is_screen_data x \<and> current_screen_data (step x s) \<noteq> None)"
  by (cases x) (simp_all add: frame_register frame_message unregister_client_prune fields_prune)

lemma frame_step2:
  "current_screen_data (step2 x s) = current_screen_data s
     \<or> (is_screen_data x \<and> current_screen_data (step2 x s) \<noteq> None)"
  by (cases x) (simp_all add: frame_register2 frame_message2 unregister_client2_prune fields_prune)

lemma frame_kept_step: "current_screen_data s \<noteq> None \<Longrightarrow> current_screen_data (step x s) \<noteq> None"
  using frame_step [of x s] by auto

lemma frame_kept_step2: "current_screen_data s \<noteq> None \<Longrightarrow> current_screen_data (step2 x s) \<noteq> None"
  using frame_step2 [of x s] by auto

lemma frame_kept_exec: "current_screen_data s \<noteq> None \<Longrightarrow> current_screen_data (exec xs s) \<noteq> None"
proof (induction xs arbitrary: s)
  case Nil
  then show ?case by simp
next
  case (Cons x xs)
  from Cons.prems have "current_screen_data (step x s) \<noteq> None"
    by (rule frame_kept_step)
  then have "current_screen_data (exec xs (step x s)) \<noteq> None"
    by (rule Cons.IH)
  then show ?case by simp
qed

lemma frame_kept_exec2: "current_screen_data s \<noteq> None \<Longrightarrow> current_screen_data (exec2 xs s) \<noteq> None"
proof (induction xs arbitrary: s)
  case Nil
  then show ?case by simp
next
  case (Cons x xs)
  from Cons.prems have "current_screen_data (step2 x s) \<noteq> None"
    by (rule frame_kept_step2)
  then have "current_screen_data (exec2 xs (step2 x s)) \<noteq> None"
    by (rule Cons.IH)
  then show ?case by simp
qed

lemma no_frame_exec:
  "list_all (\<lambda>x. \<not> is_screen_data x) xs \<Longrightarrow> current_screen_data (exec xs s) = current_screen_data s"
proof (induction xs arbitrary: s)
  case Nil
  show ?case by simp
next
  case (Cons x xs)
  then have "current_screen_data (step x s) = current_screen_data s"
    using frame_step [of x s] by auto
  then show ?case using Cons by simp
qed

lemma no_frame_exec2:
  "list_all (\<lambda>x. \<not> is_screen_data x) xs \<Longrightarrow> current_screen_data (exec2 xs s) = current_screen_data s"
proof (induction xs arbitrary: s)
  case Nil
  show ?case by simp
next
  case (Cons x xs)
  then have "current_screen_data (step2 x s) = current_screen_data s"
    using frame_step2 [of x s] by auto
  then show ?case using Cons by simp
qed

text \<open>
  Claim C5. Once \<^verbatim>\<open>current_screen_data\<close> is not \<^verbatim>\<open>None\<close> it stays so: every operation
  leaves it unchanged or replaces it with another record, so after any sequence of
  operations, and after a whole run of \<^verbatim>\<open>handle_client\<close>, it is not \<^verbatim>\<open>None\<close> and
  \<^verbatim>\<open>has_screen_data\<close> of the status is true. In both revisions.
\<close>

theorem frame_never_cleared:
  fixes s :: server and t :: server2
  assumes "current_screen_data s \<noteq> None" and "current_screen_data t \<noteq> None"
  shows "current_screen_data (exec ops s) \<noteq> None \<and>
         has_screen_data (get_server_status (exec ops s)) \<and>
         (current_screen_data (step x s) = current_screen_data s
            \<or> current_screen_data (step x s) \<noteq> None) \<and>
         current_screen_data (fst (handle_client tr w ms s)) \<noteq> None \<and>
         current_screen_data (exec2 ops t) \<noteq> None \<and>
         has_screen_data (get_server_status2 (exec2 ops t)) \<and>
         (current_screen_data (step2 x t) = current_screen_data t
            \<or> current_screen_data (step2 x t) \<noteq> None) \<and>
         current_screen_data (fst (handle_client2 tr w ms t)) \<noteq> None"
proof -
  have rl: "current_screen_data (fst (read_loop tr w ms u)) \<noteq> None"
    if "current_screen_data u \<noteq> None" for u
    using that
  proof (induction ms arbitrary: u)
    case Nil
    then show ?case by simp
  next
    case (Cons m ms)
    obtain now msg where m: "m = (now, msg)" by (cases m)
    have "current_screen_data (fst (handle_client_message tr now w msg u)) \<noteq> None"
      using Cons.prems by (simp add: frame_message)
    then show ?case using Cons.IH by (simp add: m split_def Let_def)
  qed
  have rl2: "current_screen_data (fst (read_loop2 tr w ms u)) \<noteq> None"
    if "current_screen_data u \<noteq> None" for u
    using that
  proof (induction ms arbitrary: u)
    case Nil
    then show ?case by simp
  next
    case (Cons m ms)
    obtain now msg where m: "m = (now, msg)" by (cases m)
    have "current_screen_data (fst (handle_client_message2 tr now w msg u)) \<noteq> None"
      using Cons.prems by (simp add: frame_message2)
    then show ?case using Cons.IH by (simp add: m split_def Let_def)
  qed
  have hc: "current_screen_data (fst (handle_client tr w ms s)) \<noteq> None"
    using rl [of "fst (register_client tr w (JStr ''viewer'') s)"] assms(1)
    by (simp add: handle_client_def split_def Let_def unregister_client_prune fields_prune
        frame_register)
  have hc2: "current_screen_data (fst (handle_client2 tr w ms t)) \<noteq> None"
    using rl2 [of "fst (register_client2 tr w (JStr ''viewer'') t)"] assms(2)
    by (simp add: handle_client2_def split_def Let_def unregister_client2_prune fields_prune
        frame_register2)
  show ?thesis
    using assms hc hc2 frame_step [of x s] frame_step2 [of x t]
      frame_kept_exec [of s ops] frame_kept_exec2 [of t ops]
    by (auto simp add: get_server_status_def get_server_status2_def)
qed

lemma with_frame_data:
  "current_screen_data with_frame = Some (frame_of 0 (screen_data_dict 800 600))"
  "current_screen_data with_frame2 = Some (frame_of 0 (screen_data_dict 800 600))"
  by (simp_all add: with_frame_def with_frame2_def handle_screen_data_fst
      handle_screen_data2_fst fields_prune)

text \<open>
  A registry holding a frame, then an unregistration, a mouse event and a request for
  the frame.
\<close>

theorem frame_never_cleared_witness:
  "current_screen_data with_frame \<noteq> None \<and> current_screen_data with_frame2 \<noteq> None \<and>
   has_screen_data (get_server_status
     (exec [Op_unregister 2, Op_message all_open 1 3 (Decoded (JObj mouse_dict)),
            Op_message all_open 2 1 get_screenshot_msg] with_frame)) \<and>
   has_screen_data (get_server_status2
     (exec2 [Op_unregister 2, Op_message all_open 1 3 (Decoded (JObj mouse_dict)),
            Op_message all_open 2 1 get_screenshot_msg] with_frame2))"
  using frame_never_cleared [of with_frame with_frame2
      "[Op_unregister 2, Op_message all_open 1 3 (Decoded (JObj mouse_dict)),
            Op_message all_open 2 1 get_screenshot_msg]"]
  by (simp add: with_frame_data)

section \<open>Requests for the current frame\<close>

text \<open>
  Claim C6. A \<^verbatim>\<open>get_screenshot\<close> request is answered with exactly one message to the
  sender: the \<^verbatim>\<open>error\<close> record when \<^verbatim>\<open>current_screen_data\<close> is \<^verbatim>\<open>None\<close>, the cached
  \<^verbatim>\<open>screenshot\<close> record otherwise. The registry is left as it was (the revision counts
  the message received and the reply sent), so the connection stays registered whether
  or not the reply could be sent. As long as no \<^verbatim>\<open>screen_data\<close> message was handled
  since the start, \<^verbatim>\<open>current_screen_data\<close> is \<^verbatim>\<open>None\<close>.
\<close>

theorem get_screenshot_reply:
  assumes "dict_get d ''type'' JNull = JStr ''get_screenshot''"
  shows
    "handle_client_message tr now w (Decoded (JObj d)) s =
       (s, [Send w (case current_screen_data s of
                      None \<Rightarrow> Error_reply no_screen_data_message
                    | Some f \<Rightarrow> Screenshot f) (send_outcome (tr w))]) \<and>
     snd (handle_client_message2 tr now w (Decoded (JObj d)) t) =
       [Send w (case current_screen_data t of
                  None \<Rightarrow> Error_reply no_screen_data_message
                | Some f \<Rightarrow> Screenshot f) (send_outcome (tr w))] \<and>
     fst (handle_client_message2 tr now w (Decoded (JObj d)) t) =
       t\<lparr> messages_received := messages_received t + 1,
          messages_sent := messages_sent t + (if send_outcome (tr w) = Sent then 1 else 0) \<rparr> \<and>
     (list_all (\<lambda>x. \<not> is_screen_data x) ops \<longrightarrow>
        current_screen_data (exec ops init) = None \<and>
        current_screen_data (exec2 ops (init2 t0)) = None)"
proof -
  have a: "handle_client_message tr now w (Decoded (JObj d)) s =
       (s, [Send w (case current_screen_data s of
                      None \<Rightarrow> Error_reply no_screen_data_message
                    | Some f \<Rightarrow> Screenshot f) (send_outcome (tr w))])"
    using assms by (simp add: handle_client_message_def Let_def split: option.splits)
  have b: "handle_client_message2 tr now w (Decoded (JObj d)) t =
       (t\<lparr> messages_received := messages_received t + 1,
          messages_sent := messages_sent t + (if send_outcome (tr w) = Sent then 1 else 0) \<rparr>,
        [Send w (case current_screen_data t of
                  None \<Rightarrow> Error_reply no_screen_data_message
                | Some f \<Rightarrow> Screenshot f) (send_outcome (tr w))])"
    using assms by (simp add: handle_client_message2_def Let_def reply2_def split: option.splits)
  have c: "list_all (\<lambda>x. \<not> is_screen_data x) ops \<longrightarrow>
        current_screen_data (exec ops init) = None \<and>
        current_screen_data (exec2 ops (init2 t0)) = None"
    by (simp add: no_frame_exec no_frame_exec2 init_def init2_def)
  show ?thesis using a b c by simp
qed

text \<open>
  The request in a registry without a frame and in one with a frame.
\<close>

theorem get_screenshot_reply_witness:
  "dict_get [(''type'', JStr ''get_screenshot'')] ''type'' JNull = JStr ''get_screenshot'' \<and>
   list_all (\<lambda>x. \<not> is_screen_data x)
     [Op_register all_open 1 (JStr ''viewer''), Op_message all_open 0 1 (register_msg ''viewer'')] \<and>
   handle_client_message all_open 1 1 get_screenshot_msg three_roles =
     (three_roles, [Send 1 (Error_reply no_screen_data_message) Sent]) \<and>
   handle_client_message all_open 1 1 get_screenshot_msg with_frame =
     (with_frame, [Send 1 (Screenshot (frame_of 0 (screen_data_dict 800 600))) Sent]) \<and>
   snd (handle_client_message2 all_open 1 1 get_screenshot_msg three_roles2) =
     [Send 1 (Error_reply no_screen_data_message) Sent] \<and>
   current_screen_data (exec [Op_register all_open 1 (JStr ''viewer''),
      Op_message all_open 0 1 (register_msg ''viewer'')] init) = None"
proof -
  have g: "dict_get [(''type'', JStr ''get_screenshot'')] ''type'' JNull = JStr ''get_screenshot''"
    by (simp add: dict_get_def)
  have l: "list_all (\<lambda>x. \<not> is_screen_data x)
     [Op_register all_open 1 (JStr ''viewer''), Op_message all_open 0 1 (register_msg ''viewer'')]"
    by (simp add: register_msg_def dict_get_def)
  have n: "current_screen_data three_roles = None" "current_screen_data three_roles2 = None"
    by (simp_all add: three_roles_def three_roles2_def frame_register frame_register2
        init_def init2_def)
  have o: "send_outcome (all_open 1) = Sent"
    by (simp add: all_open_def open_peer_def)
  show ?thesis
    using get_screenshot_reply [OF g, of all_open 1 1 three_roles three_roles2
        "[Op_register all_open 1 (JStr ''viewer''), Op_message all_open 0 1 (register_msg ''viewer'')]" 0]
      get_screenshot_reply [OF g, of all_open 1 1 with_frame with_frame2 "[]" 0]
      g l n o
    by (simp add: get_screenshot_msg_def with_frame_data)
qed

section \<open>Submitting frames\<close>

lemma prune_frame:
  "(prune P s)\<lparr> current_screen_data := x, screen_info := y \<rparr>
     = prune P (s\<lparr> current_screen_data := x, screen_info := y \<rparr>)"
  by (simp add: prune_def)

lemma prune_frame2:
  "(prune P t)\<lparr> current_screen_data := x, screen_info := y, messages_sent := k \<rparr>
     = prune P (t\<lparr> current_screen_data := x, screen_info := y, messages_sent := k \<rparr>)"
  by (simp add: prune_def)

lemma prune_messages_sent:
  "(prune P t)\<lparr> messages_sent := k \<rparr> = prune P (t\<lparr> messages_sent := k \<rparr>)"
  by (simp add: prune_def)

lemma handle_screen_data_twice:
  "fst (handle_screen_data tr t2 d2 (fst (handle_screen_data tr t1 d1 s)))
     = fst (handle_screen_data tr t2 d2 s)"
proof -
  let ?P = "\<lambda>c. mem c (screen_viewers s) \<and> send_fails tr c"
  let ?s1 = "prune ?P (s\<lparr> current_screen_data := Some (frame_of t1 d1), screen_info := dims_of d1 \<rparr>)"
  have none: "\<And>c. \<not> (mem c (screen_viewers ?s1) \<and> send_fails tr c)"
    by (simp add: viewers_prune)
  have "fst (handle_screen_data tr t2 d2 ?s1)
          = ?s1\<lparr> current_screen_data := Some (frame_of t2 d2), screen_info := dims_of d2 \<rparr>"
    by (simp only: handle_screen_data_fst [of tr t2 d2 ?s1] prune_none [OF none])
  also have "\<dots> = prune ?P (s\<lparr> current_screen_data := Some (frame_of t2 d2), screen_info := dims_of d2 \<rparr>)"
    by (simp add: prune_def)
  finally show ?thesis
    by (simp add: handle_screen_data_fst)
qed

lemma handle_screen_data2_twice:
  "fst (handle_screen_data2 tr t2 d2 (fst (handle_screen_data2 tr t1 d1 u)))
     = (fst (handle_screen_data2 tr t2 d2 u))
         \<lparr> messages_sent :=
             messages_sent (fst (handle_screen_data2 tr t2 d2 (fst (handle_screen_data2 tr t1 d1 u)))) \<rparr>"
proof -
  let ?P = "\<lambda>c. mem c (screen_viewers u) \<and> send_fails2 tr c"
  obtain k1 where s1: "fst (handle_screen_data2 tr t1 d1 u)
      = prune ?P (u\<lparr> current_screen_data := Some (frame_of t1 d1), screen_info := dims_of d1,
                      messages_sent := k1 \<rparr>)"
    by (simp add: handle_screen_data2_fst)
  let ?s1 = "prune ?P (u\<lparr> current_screen_data := Some (frame_of t1 d1), screen_info := dims_of d1,
                      messages_sent := k1 \<rparr>)"
  have none: "\<And>c. \<not> (mem c (screen_viewers ?s1) \<and> send_fails2 tr c)"
    by (simp add: viewers_prune)
  obtain k2 where "fst (handle_screen_data2 tr t2 d2 ?s1)
          = ?s1\<lparr> current_screen_data := Some (frame_of t2 d2), screen_info := dims_of d2,
                  messages_sent := k2 \<rparr>"
    by (simp only: handle_screen_data2_fst [of tr t2 d2 ?s1] prune_none [OF none])
  then have two: "fst (handle_screen_data2 tr t2 d2 (fst (handle_screen_data2 tr t1 d1 u)))
     = prune ?P (u\<lparr> current_screen_data := Some (frame_of t2 d2), screen_info := dims_of d2,
                      messages_sent := k2 \<rparr>)"
    by (simp add: s1 prune_def)
  obtain k where one: "fst (handle_screen_data2 tr t2 d2 u)
      = prune ?P (u\<lparr> current_screen_data := Some (frame_of t2 d2), screen_info := dims_of d2,
                      messages_sent := k \<rparr>)"
    by (simp add: handle_screen_data2_fst)
  show ?thesis
    by (simp add: two one prune_def)
qed

text \<open>
  Claim C7. Submitting frames is last-write-wins: handling a \<^verbatim>\<open>screen_data\<close> message
  \<open>d1\<close> and then a message \<open>d2\<close> leaves the registry of \<^verbatim>\<open>muma.py\<close> in the very state
  that handling \<open>d2\<close> alone gives (under the same condition of the peers), and that
  of \<^verbatim>\<open>muma2.0.py\<close> in the same state up to the counter \<^verbatim>\<open>messages_sent\<close>. Whatever
  the peers do, afterwards the cached frame is the one built from \<open>d2\<close>, the status
  shows the width and height of \<open>d2\<close>, and a \<^verbatim>\<open>get_screenshot\<close> request is answered
  with the frame of \<open>d2\<close>. No message is rejected: the stored values are those found
  in the message, whatever they are.
\<close>

theorem frame_last_write_wins:
  fixes s :: server and u :: server2
  shows
    "fst (handle_screen_data tr t2 d2 (fst (handle_screen_data tr t1 d1 s)))
       = fst (handle_screen_data tr t2 d2 s) \<and>
     fst (handle_screen_data2 tr t2 d2 (fst (handle_screen_data2 tr t1 d1 u)))
       = (fst (handle_screen_data2 tr t2 d2 u))
           \<lparr> messages_sent :=
               messages_sent (fst (handle_screen_data2 tr t2 d2 (fst (handle_screen_data2 tr t1 d1 u)))) \<rparr> \<and>
     current_screen_data (fst (handle_screen_data tra t2 d2 (fst (handle_screen_data trb t1 d1 s))))
       = Some (frame_of t2 d2) \<and>
     status_screen_info (get_server_status
         (fst (handle_screen_data tra t2 d2 (fst (handle_screen_data trb t1 d1 s)))))
       = dims_of d2 \<and>
     snd (handle_client_message trc t3 w get_screenshot_msg
         (fst (handle_screen_data tra t2 d2 (fst (handle_screen_data trb t1 d1 s)))))
       = [Send w (Screenshot (frame_of t2 d2)) (send_outcome (trc w))] \<and>
     current_screen_data (fst (handle_screen_data2 tra t2 d2 (fst (handle_screen_data2 trb t1 d1 u))))
       = Some (frame_of t2 d2) \<and>
     status_screen_info (get_server_status2
         (fst (handle_screen_data2 tra t2 d2 (fst (handle_screen_data2 trb t1 d1 u)))))
       = dims_of d2 \<and>
     snd (handle_client_message2 trc t3 w get_screenshot_msg
         (fst (handle_screen_data2 tra t2 d2 (fst (handle_screen_data2 trb t1 d1 u)))))
       = [Send w (Screenshot (frame_of t2 d2)) (send_outcome (trc w))] \<and>
     width (dims_of d2) = dict_get d2 ''width'' (JInt 0) \<and>
     height (dims_of d2) = dict_get d2 ''height'' (JInt 0) \<and>
     frame_data (frame_of t2 d2) = dict_get d2 ''data'' JNull"
proof -
  have g: "dict_get [(''type'', JStr ''get_screenshot'')] ''type'' JNull = JStr ''get_screenshot''"
    by (simp add: dict_get_def)
  have a: "current_screen_data (fst (handle_screen_data tra t2 d2 x)) = Some (frame_of t2 d2)"
    "screen_info (fst (handle_screen_data tra t2 d2 x)) = dims_of d2" for x
    by (simp_all add: handle_screen_data_fst fields_prune)
  have b: "current_screen_data (fst (handle_screen_data2 tra t2 d2 y)) = Some (frame_of t2 d2)"
    "screen_info (fst (handle_screen_data2 tra t2 d2 y)) = dims_of d2" for y
    by (simp_all add: handle_screen_data2_fst fields_prune)
  have c: "snd (handle_client_message trc t3 w get_screenshot_msg x)
       = [Send w (case current_screen_data x of
                      None \<Rightarrow> Error_reply no_screen_data_message
                    | Some f \<Rightarrow> Screenshot f) (send_outcome (trc w))]" for x
    using g by (simp add: get_screenshot_msg_def handle_client_message_def Let_def split: option.splits)
  have d: "snd (handle_client_message2 trc t3 w get_screenshot_msg y)
       = [Send w (case current_screen_data y of
                      None \<Rightarrow> Error_reply no_screen_data_message
                    | Some f \<Rightarrow> Screenshot f) (send_outcome (trc w))]" for y
    using g by (simp add: get_screenshot_msg_def handle_client_message2_def Let_def reply2_def
        split: option.splits)
  show ?thesis
    by (intro conjI handle_screen_data_twice handle_screen_data2_twice)
      (simp_all add: a b c d get_server_status_def get_server_status2_def dims_of_def frame_of_def)
qed

text \<open>
  A frame of 800 by 600 followed by one of width and height 0.
\<close>

theorem frame_last_write_wins_witness:
  "fst (handle_screen_data (one_closed 1) 2 (screen_data_dict 0 0)
         (fst (handle_screen_data (one_closed 1) 1 (screen_data_dict 800 600) three_roles)))
     = fst (handle_screen_data (one_closed 1) 2 (screen_data_dict 0 0) three_roles) \<and>
   width (status_screen_info (get_server_status
       (fst (handle_screen_data all_open 2 (screen_data_dict 0 0)
         (fst (handle_screen_data all_open 1 (screen_data_dict 800 600) three_roles))))))
     = JInt 0 \<and>
   height (status_screen_info (get_server_status2
       (fst (handle_screen_data2 all_open 2 (screen_data_dict 0 0)
         (fst (handle_screen_data2 all_open 1 (screen_data_dict 800 600) three_roles2))))))
     = JInt 0"
  using frame_last_write_wins [of "one_closed 1" 2 "screen_data_dict 0 0" 1
      "screen_data_dict 800 600" three_roles three_roles2 all_open all_open all_open 0 1]
  by (simp add: screen_data_dict_def dict_get_def dims_of_def)

section \<open>Registration with an unknown client type\<close>



section \<open>Routing by role\<close>

text \<open>
  What the two handlers send. In \<^verbatim>\<open>muma.py\<close> a \<^verbatim>\<open>screen_data\<close> message is written to
  each member of the viewer set once and to nobody else, and a control event to each
  member of the provider set once and to nobody else. In \<^verbatim>\<open>muma2.0.py\<close> the same holds
  for the members whose state is open, except that a control event whose debug line
  cannot be built is written to nobody.
\<close>

lemma routing_by_role:
  fixes s :: server and u :: server2
  shows
    "attempted_to (snd (handle_screen_data tr now d s)) = list_of_dlist (screen_viewers s) \<and>
     delivered_to (Screenshot (frame_of now d)) (snd (handle_screen_data tr now d s))
       = filter (\<lambda>v. \<not> send_fails tr v) (list_of_dlist (screen_viewers s)) \<and>
     attempted_to (snd (handle_control_event tr w c s)) = list_of_dlist (screen_providers s) \<and>
     delivered_to (Control c) (snd (handle_control_event tr w c s))
       = filter (\<lambda>v. \<not> send_fails tr v) (list_of_dlist (screen_providers s)) \<and>
     attempted_to (snd (handle_screen_data2 tr now d u))
       = filter (\<lambda>v. state_open (tr v)) (list_of_dlist (screen_viewers u)) \<and>
     delivered_to (Screenshot (frame_of now d)) (snd (handle_screen_data2 tr now d u))
       = filter (\<lambda>v. \<not> send_fails2 tr v) (list_of_dlist (screen_viewers u)) \<and>
     attempted_to (snd (handle_control_event2 tr w c u))
       = (if log_raises c then []
          else filter (\<lambda>v. state_open (tr v)) (list_of_dlist (screen_providers u))) \<and>
     delivered_to (Control c) (snd (handle_control_event2 tr w c u))
       = (if log_raises c then []
          else filter (\<lambda>v. \<not> send_fails2 tr v) (list_of_dlist (screen_providers u)))"
  by (simp add: handle_screen_data_snd handle_control_event_snd handle_screen_data2_snd
      handle_control_event2_snd attempted_to_append attempted_to_sends attempted_to_marks
      delivered_to_append delivered_to_sends delivered_to_marks send_fails_def send_fails2_def
      cong: conj_cong)

lemma three_roles_sets:
  "list_of_dlist (screen_providers three_roles) = [2]"
  "list_of_dlist (screen_viewers three_roles) = [1]"
  "list_of_dlist (control_clients three_roles) = [3]"
  "list_of_dlist (screen_providers three_roles2) = [2]"
  "list_of_dlist (screen_viewers three_roles2) = [1]"
  "list_of_dlist (control_clients three_roles2) = [3]"
  by (simp_all add: three_roles_def three_roles2_def register_client_def register_client2_def
      init_def init2_def Let_def)

lemma hotkey_dict_log_raises: "log_raises hotkey_dict"
  by (simp add: log_raises_def hotkey_dict_def dict_get_def)

text \<open>
  Claim C4 at the message
  \<^verbatim>\<open>{"type": "keyboard", "event_type": "hotkey", "keys": [17, 67]}\<close>, sent by the
  controller of a registry with one viewer, one provider and one controller in disjoint
  role sets. \<^verbatim>\<open>muma2.0.py\<close> sends it to nobody: building the debug line raises
  \<^verbatim>\<open>TypeError\<close> in \<^verbatim>\<open>'+'.join(keys)\<close> before \<^verbatim>\<open>_broadcast_to_providers\<close> is
  reached. \<^verbatim>\<open>muma.py\<close> sends it to the provider.
\<close>

theorem hotkey_with_key_codes_is_dropped:
  "roles_disjoint three_roles2 \<and>
   list_of_dlist (screen_providers three_roles2) = [2] \<and>
   snd (handle_client_message2 all_open 0 3 (Decoded (JObj hotkey_dict)) three_roles2) = [] \<and>
   roles_disjoint three_roles \<and>
   list_of_dlist (screen_providers three_roles) = [2] \<and>
   snd (handle_client_message all_open 0 3 (Decoded (JObj hotkey_dict)) three_roles)
     = [Send 2 (Control hotkey_dict) Sent]"
proof -
  have t: "dict_get hotkey_dict ''type'' JNull = JStr ''keyboard''"
    by (simp add: hotkey_dict_def dict_get_def)
  have a: "snd (handle_client_message2 all_open 0 3 (Decoded (JObj hotkey_dict)) three_roles2) = []"
    by (simp add: handle_client_message2_def Let_def t handle_control_event2_def
        hotkey_dict_log_raises)
  have b: "snd (handle_client_message all_open 0 3 (Decoded (JObj hotkey_dict)) three_roles)
     = [Send 2 (Control hotkey_dict) Sent]"
    by (simp add: handle_client_message_def Let_def t handle_control_event_snd three_roles_sets
        send_fails_def all_open_def open_peer_def)
  show ?thesis
    using a b by (simp add: roles_disjoint_def three_roles_sets)
qed

section \<open>The handlers above are the undisturbed ones\<close>

lemma send_loop_live_undisturbed:
  "send_loop_live tr none_stalled nobody_else targets m vs s disc
     = Completed (fst (send_loop tr m vs disc)) s (snd (send_loop tr m vs disc))"
  by (induction vs arbitrary: disc)
    (simp_all add: none_stalled_def nobody_else_def Let_def split_def)

lemma handle_screen_data_undisturbed:
  "handle_screen_data_interleaved tr none_stalled nobody_else now d s
     = Returns (fst (handle_screen_data tr now d s)) (snd (handle_screen_data tr now d s))"
  by (simp add: handle_screen_data_interleaved_def handle_screen_data_def
      send_loop_live_undisturbed Let_def split_def)

lemma handle_control_event_undisturbed:
  "handle_control_event_interleaved tr none_stalled nobody_else w d s
     = Returns (fst (handle_control_event tr w d s)) (snd (handle_control_event tr w d s))"
  by (simp add: handle_control_event_interleaved_def handle_control_event_def
      send_loop_live_undisturbed Let_def split_def)

lemma gather_tasks_none_stalled:
  "gather_tasks tr none_stalled m vs
     = (map Some (fst (gather_sends tr m vs)), snd (gather_sends tr m vs))"
  by (induction vs)
    (simp_all add: none_stalled_def send_to_client_task_def send_to_client_def Let_def split_def)

lemma those_map_Some: "those (map Some xs) = Some xs"
  by (induction xs) simp_all

lemma broadcast_to_viewers_undisturbed:
  "broadcast_to_viewers_interleaved tr none_stalled undisturbed m s
     = Returns (fst (broadcast_to_viewers tr m s)) (snd (broadcast_to_viewers tr m s))"
  by (simp add: broadcast_to_viewers_interleaved_def broadcast_to_viewers_def
      gather_tasks_none_stalled those_map_Some undisturbed_def Let_def split_def)

lemma broadcast_to_providers_undisturbed:
  "broadcast_to_providers_interleaved tr none_stalled undisturbed m s
     = Returns (fst (broadcast_to_providers tr m s)) (snd (broadcast_to_providers tr m s))"
  by (simp add: broadcast_to_providers_interleaved_def broadcast_to_providers_def
      gather_tasks_none_stalled those_map_Some undisturbed_def Let_def split_def)

section \<open>A stalled target\<close>

lemma send_loop_live_stalled:
  "send_loop_live tr stalled nobody_else targets m vs s disc =
     (if list_ex stalled vs
      then Stalled (map (\<lambda>v. Send v m (send_outcome (tr v))) (takeWhile (\<lambda>v. \<not> stalled v) vs))
      else Completed (fst (send_loop tr m vs disc)) s (snd (send_loop tr m vs disc)))"
  by (induction vs arbitrary: disc) (simp_all add: nobody_else_def Let_def split_def)

lemma takeWhile_all: "\<not> list_ex P vs \<Longrightarrow> takeWhile (\<lambda>v. \<not> P v) vs = vs"
  by (induction vs) simp_all

text \<open>In \<^verbatim>\<open>muma.py\<close>, undisturbed, the targets written to are those visited before the
  first stalled one.\<close>

lemma sequential_loop_stops_at_stalled_target:
  "attempted_to (effects (handle_screen_data_interleaved tr stalled nobody_else now d s))
     = takeWhile (\<lambda>v. \<not> stalled v) (list_of_dlist (screen_viewers s)) \<and>
   attempted_to (effects (handle_control_event_interleaved tr stalled nobody_else w c s))
     = takeWhile (\<lambda>v. \<not> stalled v) (list_of_dlist (screen_providers s))"
  by (simp add: handle_screen_data_interleaved_def handle_control_event_interleaved_def
      send_loop_live_stalled Let_def split_def dlist_null_iff send_loop_snd unregister_all_snd
      attempted_to_append attempted_to_sends attempted_to_marks takeWhile_all)

lemma gather_tasks_snd:
  "snd (gather_tasks tr stalled m vs)
     = map (\<lambda>v. Send v m (send_outcome (tr v)))
         (filter (\<lambda>v. state_open (tr v) \<and> \<not> stalled v) vs)"
  by (induction vs) (simp_all add: send_to_client_task_def Let_def split_def)

lemma gather_tasks_length: "length (fst (gather_tasks tr stalled m vs)) = length vs"
  by (induction vs) (simp_all add: Let_def split_def)

text \<open>In \<^verbatim>\<open>muma2.0.py\<close> there is one task for each target, and every open target that
  is not stalled is written to, whatever the other targets and handlers do.\<close>

lemma fan_out_reaches_every_other_target:
  "attempted_to (effects (broadcast_to_viewers_interleaved tr stalled meanwhile m s))
     = filter (\<lambda>v. state_open (tr v) \<and> \<not> stalled v) (list_of_dlist (screen_viewers s)) \<and>
   attempted_to (effects (broadcast_to_providers_interleaved tr stalled meanwhile m s))
     = filter (\<lambda>v. state_open (tr v) \<and> \<not> stalled v) (list_of_dlist (screen_providers s)) \<and>
   length (fst (gather_tasks tr stalled m (list_of_dlist (screen_viewers s))))
     = Dlist.length (screen_viewers s)"
  by (simp add: broadcast_to_viewers_interleaved_def broadcast_to_providers_interleaved_def
      Let_def split_def dlist_null_iff gather_tasks_snd gather_tasks_length unregister_all2_snd
      attempted_to_append attempted_to_sends attempted_to_marks Dlist.length_def
      split: option.splits)

lemma three_providers_list:
  "list_of_dlist (screen_providers three_providers) = [3, 2, 1]"
  "list_of_dlist (screen_providers three_providers2) = [3, 2, 1]"
  by (simp_all add: three_providers_def three_providers2_def register_client_def
      register_client2_def init_def init2_def Let_def)

lemma peers_simps:
  "state_open (all_open v) = True" "send_outcome (all_open v) = Sent"
  "state_open (one_closed x v) = (v \<noteq> x)"
  "send_outcome (one_closed x v) = (if v = x then Raised_closed else Sent)"
  by (simp_all add: all_open_def one_closed_def open_peer_def closed_peer_def)

text \<open>
  Claim C9 at a target whose send never returns: three open targets visited in the
  order 3, 2, 1, of which 3 is stalled. In \<^verbatim>\<open>muma.py\<close> the loop awaits each send before
  the next, in \<^verbatim>\<open>handle_screen_data\<close> as in \<^verbatim>\<open>handle_control_event\<close>: the handler
  never returns and the targets 2 and 1 are never written to. In \<^verbatim>\<open>muma2.0.py\<close>
  each send is a task of its own: the targets 2 and 1 are written to, in
  \<^verbatim>\<open>_broadcast_to_viewers\<close> as in \<^verbatim>\<open>_broadcast_to_providers\<close>.
\<close>

theorem stalled_target_blocks_sequential_loop:
  "list_of_dlist (screen_viewers three_viewers) = [3, 2, 1] \<and>
   handle_screen_data_interleaved all_open (only_stalled 3) nobody_else 0
       (screen_data_dict 0 0) three_viewers = Never_returns [] \<and>
   list_of_dlist (screen_providers three_providers) = [3, 2, 1] \<and>
   handle_control_event_interleaved all_open (only_stalled 3) nobody_else 9
       mouse_dict three_providers = Never_returns [] \<and>
   list_of_dlist (screen_viewers three_viewers2) = [3, 2, 1] \<and>
   broadcast_to_viewers_interleaved all_open (only_stalled 3) undisturbed Pong three_viewers2
     = Never_returns [Send 2 Pong Sent, Send 1 Pong Sent] \<and>
   list_of_dlist (screen_providers three_providers2) = [3, 2, 1] \<and>
   broadcast_to_providers_interleaved all_open (only_stalled 3) undisturbed Pong three_providers2
     = Never_returns [Send 2 Pong Sent, Send 1 Pong Sent]"
  by (simp add: handle_screen_data_interleaved_def handle_control_event_interleaved_def
      broadcast_to_viewers_interleaved_def broadcast_to_providers_interleaved_def
      three_viewers_list three_viewers2_list three_providers_list dlist_null_iff
      send_to_client_task_def only_stalled_def peers_simps Let_def)

text \<open>
  Claim C3 at broadcasts during which another handler changes the registry.
  \<^verbatim>\<open>muma2.0.py\<close>, three viewers visited in the order 3, 2, 1, of which 2 is closed,
  while the handler of 3 ends and unregisters it during the await of the gather: the
  results are paired with the set as it is read again after the await, so
  \<^verbatim>\<open>unregister_client\<close> is called on the healthy viewer 1 and not on the closed viewer
  2, which remains the only member of the set; the same in \<^verbatim>\<open>_broadcast_to_providers\<close>.
  \<^verbatim>\<open>muma.py\<close>, three viewers visited in the order 3, 2, 1, of which 3 is closed, while a
  connection 4 is accepted during the send to 2: the iterator of the live set raises
  \<^verbatim>\<open>RuntimeError\<close>, \<^verbatim>\<open>unregister_client\<close> is not called at all, the closed viewer 3
  stays in the set and the healthy viewer 1 is never written to; the same in
  \<^verbatim>\<open>handle_control_event\<close> when a provider registers during the send.
\<close>

theorem interleaved_broadcast_misses_failed_target:
  "list_of_dlist (screen_viewers three_viewers2) = [3, 2, 1] \<and>
   state_open (one_closed 2 2) = False \<and> state_open (one_closed 2 1) = True \<and>
   send_outcome (one_closed 2 1) = Sent \<and>
   is_returns (broadcast_to_viewers_interleaved (one_closed 2) none_stalled (leaves2 3) Pong
       three_viewers2) \<and>
   effects (broadcast_to_viewers_interleaved (one_closed 2) none_stalled (leaves2 3) Pong
       three_viewers2) = [Send 3 Pong Sent, Send 1 Pong Sent, Unregister 1] \<and>
   list_of_dlist (screen_viewers (final (broadcast_to_viewers_interleaved (one_closed 2)
       none_stalled (leaves2 3) Pong three_viewers2))) = [2] \<and>
   list_of_dlist (screen_providers three_providers2) = [3, 2, 1] \<and>
   is_returns (broadcast_to_providers_interleaved (one_closed 2) none_stalled (leaves2 3) Pong
       three_providers2) \<and>
   effects (broadcast_to_providers_interleaved (one_closed 2) none_stalled (leaves2 3) Pong
       three_providers2) = [Send 3 Pong Sent, Send 1 Pong Sent, Unregister 1] \<and>
   list_of_dlist (screen_providers (final (broadcast_to_providers_interleaved (one_closed 2)
       none_stalled (leaves2 3) Pong three_providers2))) = [2] \<and>
   list_of_dlist (screen_viewers three_viewers) = [3, 2, 1] \<and>
   send_outcome (one_closed 3 3) = Raised_closed \<and> send_outcome (one_closed 3 1) = Sent \<and>
   is_returns (handle_screen_data_interleaved (one_closed 3) none_stalled (accepted_during 2 4)
       0 (screen_data_dict 0 0) three_viewers) \<and>
   unregister_calls (effects (handle_screen_data_interleaved (one_closed 3) none_stalled
       (accepted_during 2 4) 0 (screen_data_dict 0 0) three_viewers)) = [] \<and>
   attempted_to (effects (handle_screen_data_interleaved (one_closed 3) none_stalled
       (accepted_during 2 4) 0 (screen_data_dict 0 0) three_viewers)) = [3, 2] \<and>
   list_of_dlist (screen_viewers (final (handle_screen_data_interleaved (one_closed 3)
       none_stalled (accepted_during 2 4) 0 (screen_data_dict 0 0) three_viewers)))
     = [4, 3, 2, 1] \<and>
   list_of_dlist (screen_providers three_providers) = [3, 2, 1] \<and>
   is_returns (handle_control_event_interleaved (one_closed 3) none_stalled
       (provider_joins_during 2 4) 9 mouse_dict three_providers) \<and>
   unregister_calls (effects (handle_control_event_interleaved (one_closed 3) none_stalled
       (provider_joins_during 2 4) 9 mouse_dict three_providers)) = [] \<and>
   attempted_to (effects (handle_control_event_interleaved (one_closed 3) none_stalled
       (provider_joins_during 2 4) 9 mouse_dict three_providers)) = [3, 2] \<and>
   list_of_dlist (screen_providers (final (handle_control_event_interleaved (one_closed 3)
       none_stalled (provider_joins_during 2 4) 9 mouse_dict three_providers)))
     = [4, 3, 2, 1]"
proof -
  have a: "broadcast_to_viewers_interleaved (one_closed 2) none_stalled (leaves2 3) Pong
       three_viewers2
     = Returns (fst (unregister_client2 1
          ((leaves2 3 three_viewers2)\<lparr> messages_sent := messages_sent (leaves2 3 three_viewers2) + 1 \<rparr>)))
         [Send 3 Pong Sent, Send 1 Pong Sent, Unregister 1]"
    by (simp add: broadcast_to_viewers_interleaved_def three_viewers2_list dlist_null_iff
        send_to_client_task_def none_stalled_def peers_simps Let_def leaves2_def
        unregister_client2_def)
  have b: "broadcast_to_providers_interleaved (one_closed 2) none_stalled (leaves2 3) Pong
       three_providers2
     = Returns (fst (unregister_client2 1
          ((leaves2 3 three_providers2)\<lparr> messages_sent := messages_sent (leaves2 3 three_providers2) + 1 \<rparr>)))
         [Send 3 Pong Sent, Send 1 Pong Sent, Unregister 1]"
    by (simp add: broadcast_to_providers_interleaved_def three_providers_list dlist_null_iff
        send_to_client_task_def none_stalled_def peers_simps Let_def leaves2_def
        unregister_client2_def)
  have c: "handle_screen_data_interleaved (one_closed 3) none_stalled (accepted_during 2 4)
       0 (screen_data_dict 0 0) three_viewers
     = Returns (fst (register_client all_open 4 (JStr ''viewer'')
          (three_viewers\<lparr> current_screen_data := Some (frame_of 0 (screen_data_dict 0 0)),
             screen_info := dims_of (screen_data_dict 0 0) \<rparr>)))
         [Send 3 (Screenshot (frame_of 0 (screen_data_dict 0 0))) Raised_closed,
          Send 2 (Screenshot (frame_of 0 (screen_data_dict 0 0))) Sent]"
    by (simp add: handle_screen_data_interleaved_def three_viewers_list dlist_null_iff
        none_stalled_def peers_simps Let_def accepted_during_def register_client_def
        Dlist.length_def)
  have d: "handle_control_event_interleaved (one_closed 3) none_stalled
       (provider_joins_during 2 4) 9 mouse_dict three_providers
     = Returns (fst (register_client all_open 4 (JStr ''provider'') three_providers))
         [Send 3 (Control mouse_dict) Raised_closed, Send 2 (Control mouse_dict) Sent]"
    by (simp add: handle_control_event_interleaved_def three_providers_list dlist_null_iff
        none_stalled_def peers_simps Let_def provider_joins_during_def register_client_def
        Dlist.length_def)
  show ?thesis
    by (simp add: a b c d three_viewers_list three_viewers2_list three_providers_list
        leaves2_def unregister_client2_def register_client_def Let_def peers_simps)
qed

end
